theory Spec2Isabelle
  imports Complex_Main "HOL-Library.Multiset"
begin

section \<open>Data model (db/tables.ts)\<close>

text \<open>
  A JavaScript \<open>number\<close> that \<open>z.number()\<close> lets through is a finite number or one of
  the two infinities (\<open>NaN\<close> is rejected). Finite numbers are modelled as rationals:
  the rounding of a double is written out where the handlers compute with numbers
  (\<open>fl\<close>, below), and left out where a number is only stored and read back. A number
  that a schema has checked with \<open>.int()\<close> is an \<open>int\<close> from there on. A \<open>Date\<close> is
  its time value, an \<open>int\<close>. An optional column or an optional input key is an
  \<open>option\<close>: \<open>None\<close> stands for \<open>null\<close> in a row and for \<open>undefined\<close> in an input.
  A stored number is finite: the database client refuses to send an infinity.

  Names are the source's, but for these: the columns \<open>id\<close> are \<open>job_id\<close> and
  \<open>seg_id\<close>, the columns \<open>text\<close> and \<open>createdAt\<close> of a segment are \<open>seg_text\<close> and
  \<open>seg_createdAt\<close>, the \<open>id\<close> of a user is \<open>user_id\<close>, the keys of an input carry
  the suffix \<open>_in\<close>, the keys of the object \<open>fieldsToUpdate\<close> the suffix \<open>_set\<close>, and
  the key \<open>total\<close> of a page is \<open>total_count\<close>.
\<close>

datatype number = Finite rat | Infinity | NegInfinity

type_synonym date = int

text \<open>Table \<open>SttJobs\<close>; the column \<open>id\<close> is the primary key.\<close>

record SttJob =
  job_id :: string
  userId :: string
  inputAudioUrl :: string
  audioFormat :: "string option"
  language :: "string option"
  modelName :: "string option"
  transcriptText :: "string option"
  durationSeconds :: "rat option"
  wordCount :: "int option"
  status :: "string option"
  errorMessage :: "string option"
  createdAt :: date
  completedAt :: "date option"

text \<open>
  Table \<open>SttSegments\<close>; \<open>id\<close> is the primary key, \<open>jobId\<close> references \<open>SttJobs.id\<close>.
  \<open>'n\<close> is the type of the three optional numbers: \<open>number\<close> in the object a
  handler builds for an insert, \<open>rat\<close> in a stored row.
\<close>

record 'n SttSegment =
  seg_id :: string
  jobId :: string
  orderIndex :: int
  startTimeSeconds :: "'n option"
  endTimeSeconds :: "'n option"
  seg_text :: string
  speakerLabel :: "string option"
  confidence :: "'n option"
  seg_createdAt :: date

text \<open>The database: each table is the list of its rows, in insertion order.\<close>

record database =
  SttJobs :: "SttJob list"
  SttSegments :: "rat SttSegment list"

section \<open>Request context and failures\<close>

record User =
  user_id :: string

record Locals =
  user :: "User option"

record ActionAPIContext =
  locals :: "Locals option"

datatype ActionErrorCode = UNAUTHORIZED | NOT_FOUND

text \<open>
  What an action can throw: an \<open>ActionError\<close> of the handlers (code and message),
  the framework's rejection of an input that does not fit the schema, and the
  failures of a database statement: a primary key that is already in the table, a
  \<open>RangeError\<close> of the client (an argument that is not finite, a stored integer that
  is not a safe integer), and the database's refusal of a limit or offset that is
  not a 64-bit integer (\<open>SQLITE_MISMATCH\<close>).
\<close>

datatype failure =
    ActionError ActionErrorCode string
  | ActionInputError
  | ConstraintError
  | RangeError
  | SqliteMismatch

type_synonym 'a outcome = "(failure + 'a) \<times> database"

text \<open>\<open>context.locals?.user\<close>: absent when \<open>locals\<close> is, or when it has no user.\<close>

definition current_user :: "ActionAPIContext \<Rightarrow> User option" where
  "current_user context = (case locals context of None \<Rightarrow> None | Some l \<Rightarrow> user l)"

definition requireUser :: "ActionAPIContext \<Rightarrow> failure + User" where
  "requireUser context =
     (case current_user context of
        None \<Rightarrow> Inl (ActionError UNAUTHORIZED ''You must be signed in to perform this action.'')
      | Some u \<Rightarrow> Inr u)"

section \<open>Numbers in the handlers and in the database\<close>

text \<open>
  \<open>round53 a g s e\<close> rounds a natural number to 53 significant bits, to the nearest,
  ties to even: \<open>a\<close> is the number without its last \<open>e\<close> bits, \<open>g\<close> is the last bit
  shifted out, and \<open>s\<close> tells whether a bit shifted out before it was set. \<open>fl x\<close> is the double nearest to the integer \<open>x\<close>
  (from \<open>2 ^ 1024\<close> on the double is an infinity).
\<close>

function round53 :: "nat \<Rightarrow> bool \<Rightarrow> bool \<Rightarrow> nat \<Rightarrow> nat" where
  "round53 a g s e =
     (if a < 2 ^ 53 then (if g \<and> (s \<or> odd a) then a + 1 else a) * 2 ^ e
      else round53 (a div 2) (odd a) (g \<or> s) (e + 1))"
  by pat_completeness auto
termination
  by (relation "measure (\<lambda>(a, g, s, e). a)") auto

declare round53.simps [simp del]

definition fl :: "int \<Rightarrow> int" where
  "fl x = (if x < 0 then - int (round53 (nat (- x)) False False 0)
           else int (round53 (nat x) False False 0))"

text \<open>A check on an optional value: an absent value passes.\<close>

definition optional :: "('a \<Rightarrow> bool) \<Rightarrow> 'a option \<Rightarrow> bool" where
  "optional p v = (case v of None \<Rightarrow> True | Some x \<Rightarrow> p x)"

text \<open>
  Modelled from the spec: the database and its client are external. A number
  column has integer affinity: a stored number that is an integer below \<open>2 ^ 63\<close> in
  magnitude is kept as an integer, and the client, which returns integers as
  JavaScript numbers, throws \<open>RangeError\<close> when it reads one that is not a safe
  integer (magnitude \<open>2 ^ 53\<close> or more). A statement that reads rows fails as a whole
  when one of the rows it returns holds such an integer.
\<close>

definition unsafe_integer :: "int \<Rightarrow> bool" where
  "unsafe_integer v = (2 ^ 53 \<le> \<bar>v\<bar> \<and> \<bar>v\<bar> < 2 ^ 63)"

definition unsafe_stored :: "rat \<Rightarrow> bool" where
  "unsafe_stored x = (of_int \<lfloor>x\<rfloor> = x \<and> unsafe_integer \<lfloor>x\<rfloor>)"

definition readable_job :: "SttJob \<Rightarrow> bool" where
  "readable_job j =
     (optional (\<lambda>x. \<not> unsafe_stored x) (durationSeconds j)
      \<and> optional (\<lambda>v. \<not> unsafe_integer v) (wordCount j))"

definition readable_segment :: "rat SttSegment \<Rightarrow> bool" where
  "readable_segment s =
     (\<not> unsafe_integer (orderIndex s)
      \<and> optional (\<lambda>x. \<not> unsafe_stored x) (startTimeSeconds s)
      \<and> optional (\<lambda>x. \<not> unsafe_stored x) (endTimeSeconds s)
      \<and> optional (\<lambda>x. \<not> unsafe_stored x) (confidence s))"

definition read_rows :: "('r \<Rightarrow> bool) \<Rightarrow> 'r list \<Rightarrow> failure + 'r list" where
  "read_rows readable rows = (if list_all readable rows then Inr rows else Inl RangeError)"

text \<open>
  Modelled from the spec: an argument of a statement is sent by the client, which
  throws \<open>RangeError\<close> for a number that is not finite; nothing is written then.
\<close>

definition bindable :: "number \<Rightarrow> bool" where
  "bindable n = (case n of Finite r \<Rightarrow> True | Infinity \<Rightarrow> False | NegInfinity \<Rightarrow> False)"

definition stored :: "number \<Rightarrow> rat" where
  "stored n = (case n of Finite r \<Rightarrow> r | Infinity \<Rightarrow> 0 | NegInfinity \<Rightarrow> 0)"

definition bindable_segment :: "number SttSegment \<Rightarrow> bool" where
  "bindable_segment v =
     (optional bindable (startTimeSeconds v) \<and> optional bindable (endTimeSeconds v)
      \<and> optional bindable (confidence v))"

definition stored_segment :: "number SttSegment \<Rightarrow> rat SttSegment" where
  "stored_segment v =
     \<lparr>seg_id = seg_id v, jobId = jobId v, orderIndex = orderIndex v,
      startTimeSeconds = map_option stored (startTimeSeconds v),
      endTimeSeconds = map_option stored (endTimeSeconds v),
      seg_text = seg_text v, speakerLabel = speakerLabel v,
      confidence = map_option stored (confidence v),
      seg_createdAt = seg_createdAt v\<rparr>"

section \<open>Database statements (astro:db)\<close>

text \<open>
  Modelled from the spec: the query builder of \<open>astro:db\<close> is an external library.
  \<open>select().from(T).where(p).get()\<close> reads the rows that satisfy \<open>p\<close> and gives the
  first; \<open>insert(T).values(rows)\<close> is one statement that appends the rows, or fails
  as a whole when a primary key of \<open>rows\<close> is already taken;
  \<open>update(T).set(f).where(p)\<close> rewrites every row that satisfies \<open>p\<close>; \<open>orderBy\<close> is a
  stable sort; \<open>limit\<close> and \<open>offset\<close> follow SQLite (a negative limit is no limit, a
  negative offset is none, and neither may reach \<open>2 ^ 63\<close> in magnitude).
\<close>

definition select_job :: "string \<Rightarrow> string \<Rightarrow> database \<Rightarrow> failure + SttJob option" where
  "select_job i uid d =
     (case read_rows readable_job (filter (\<lambda>j. job_id j = i \<and> userId j = uid) (SttJobs d)) of
        Inl e \<Rightarrow> Inl e
      | Inr rows \<Rightarrow> Inr (case rows of [] \<Rightarrow> None | r # rest \<Rightarrow> Some r))"

definition select_segments :: "string \<Rightarrow> database \<Rightarrow> failure + rat SttSegment list" where
  "select_segments i d =
     read_rows readable_segment
       (sort_key orderIndex (filter (\<lambda>s. jobId s = i) (SttSegments d)))"

definition insert_job :: "SttJob \<Rightarrow> database \<Rightarrow> failure + database" where
  "insert_job row d =
     (if job_id row \<in> set (map job_id (SttJobs d)) then Inl ConstraintError
      else Inr (d\<lparr>SttJobs := SttJobs d @ [row]\<rparr>))"

definition insert_segments :: "number SttSegment list \<Rightarrow> database \<Rightarrow> failure + database" where
  "insert_segments rows d =
     (if \<not> list_all bindable_segment rows then Inl RangeError
      else if distinct (map seg_id rows)
              \<and> set (map seg_id rows) \<inter> set (map seg_id (SttSegments d)) = {}
      then Inr (d\<lparr>SttSegments := SttSegments d @ map stored_segment rows\<rparr>)
      else Inl ConstraintError)"

text \<open>The object \<open>fieldsToUpdate\<close> of \<open>updateSttJob\<close>, the argument of \<open>set\<close>.\<close>

record FieldsToUpdate =
  status_set :: "string option"
  transcriptText_set :: "string option"
  errorMessage_set :: "string option"
  durationSeconds_set :: "number option"
  wordCount_set :: "int option"
  completedAt_set :: "date option"

definition set_fields :: "FieldsToUpdate \<Rightarrow> SttJob \<Rightarrow> SttJob" where
  "set_fields f r =
     r\<lparr>status := status_set f,
       transcriptText := transcriptText_set f,
       errorMessage := errorMessage_set f,
       durationSeconds := map_option stored (durationSeconds_set f),
       wordCount := wordCount_set f,
       completedAt := completedAt_set f\<rparr>"

definition update_jobs :: "FieldsToUpdate \<Rightarrow> string \<Rightarrow> database \<Rightarrow> failure + database" where
  "update_jobs f i d =
     (if \<not> optional bindable (durationSeconds_set f) then Inl RangeError
      else Inr (d\<lparr>SttJobs := map (\<lambda>r. if job_id r = i then set_fields f r else r) (SttJobs d)\<rparr>))"

definition limit_rows :: "int \<Rightarrow> 'a list \<Rightarrow> 'a list" where
  "limit_rows n xs = (if n < 0 then xs else take (nat n) xs)"

definition offset_rows :: "int \<Rightarrow> 'a list \<Rightarrow> 'a list" where
  "offset_rows n xs = drop (nat n) xs"

text \<open>
  The rows of a page. Limit and offset are doubles with integer values: an
  infinity is refused by the client, a value that is not a 64-bit integer by the
  database.
\<close>

definition page_rows :: "int \<Rightarrow> int \<Rightarrow> 'a list \<Rightarrow> failure + 'a list" where
  "page_rows n m xs =
     (if 2 ^ 1024 \<le> \<bar>n\<bar> \<or> 2 ^ 1024 \<le> \<bar>m\<bar> then Inl RangeError
      else if 2 ^ 63 \<le> \<bar>n\<bar> \<or> 2 ^ 63 \<le> \<bar>m\<bar> then Inl SqliteMismatch
      else Inr (limit_rows n (offset_rows m xs)))"

section \<open>Handlers (src/actions/index.ts)\<close>

text \<open>
  A handler takes the parsed input, the request context and the database, and gives
  the value it returns or the failure it throws, with the database it leaves.
  The results of \<open>crypto.randomUUID()\<close> and the clock behind the column default
  \<open>NOW\<close> are parameters. The constant \<open>success: true\<close> of every result is left out.
\<close>

record CreateSttJobInput =
  inputAudioUrl_in :: string
  audioFormat_in :: "string option"
  language_in :: "string option"
  modelName_in :: "string option"

definition createSttJob ::
  "CreateSttJobInput \<Rightarrow> ActionAPIContext \<Rightarrow> string \<Rightarrow> date \<Rightarrow> database \<Rightarrow> string outcome" where
  "createSttJob input context uuid now d =
     (case requireUser context of
        Inl e \<Rightarrow> (Inl e, d)
      | Inr u \<Rightarrow>
          (let jobId = uuid in
           case insert_job
                  \<lparr>job_id = jobId, userId = user_id u,
                   inputAudioUrl = inputAudioUrl_in input,
                   audioFormat = audioFormat_in input,
                   language = language_in input,
                   modelName = modelName_in input,
                   transcriptText = None, durationSeconds = None, wordCount = None,
                   status = Some ''queued'', errorMessage = None,
                   createdAt = now, completedAt = None\<rparr> d of
             Inl e \<Rightarrow> (Inl e, d)
           | Inr d' \<Rightarrow> (Inr jobId, d')))"

text \<open>
  The input of \<open>updateSttJob\<close>; \<open>'n\<close> is the type of \<open>wordCount\<close>: a \<open>number\<close> as
  the caller sends it, an \<open>int\<close> once the schema has accepted it.
\<close>

record 'n UpdateSttJobInput =
  id_in :: string
  status_in :: "string option"
  transcriptText_in :: "string option"
  errorMessage_in :: "string option"
  durationSeconds_in :: "number option"
  wordCount_in :: "'n option"
  completedAt_in :: "date option"

text \<open>\<open>a ?? b\<close>: \<open>a\<close> unless it is \<open>undefined\<close> or \<open>null\<close>.\<close>

definition nullish :: "'a option \<Rightarrow> 'a option \<Rightarrow> 'a option" where
  "nullish a b = (case a of None \<Rightarrow> b | Some v \<Rightarrow> Some v)"

definition fieldsToUpdate :: "int UpdateSttJobInput \<Rightarrow> SttJob \<Rightarrow> FieldsToUpdate" where
  "fieldsToUpdate input job =
     \<lparr>status_set = nullish (status_in input) (status job),
      transcriptText_set = nullish (transcriptText_in input) (transcriptText job),
      errorMessage_set = nullish (errorMessage_in input) (errorMessage job),
      durationSeconds_set =
        nullish (durationSeconds_in input) (map_option Finite (durationSeconds job)),
      wordCount_set = nullish (wordCount_in input) (wordCount job),
      completedAt_set = nullish (completedAt_in input) (completedAt job)\<rparr>"

definition updateSttJob ::
  "int UpdateSttJobInput \<Rightarrow> ActionAPIContext \<Rightarrow> database \<Rightarrow> string outcome" where
  "updateSttJob input context d =
     (case requireUser context of
        Inl e \<Rightarrow> (Inl e, d)
      | Inr u \<Rightarrow>
          (case select_job (id_in input) (user_id u) d of
             Inl e \<Rightarrow> (Inl e, d)
           | Inr None \<Rightarrow> (Inl (ActionError NOT_FOUND ''Speech-to-text job not found.''), d)
           | Inr (Some job) \<Rightarrow>
               (case update_jobs (fieldsToUpdate input job) (job_id job) d of
                  Inl e \<Rightarrow> (Inl e, d)
                | Inr d' \<Rightarrow> (Inr (job_id job), d'))))"

record 'n SegmentInput =
  orderIndex_in :: 'n
  text_in :: string
  startTimeSeconds_in :: "number option"
  endTimeSeconds_in :: "number option"
  speakerLabel_in :: "string option"
  confidence_in :: "number option"

record 'n AddSttSegmentsInput =
  jobId_in :: string
  segments_in :: "'n SegmentInput list"

text \<open>
  The object built for the \<open>k\<close>-th segment of the input: \<open>uuids k\<close> is the result of
  the \<open>k\<close>-th call of \<open>crypto.randomUUID()\<close> in the \<open>map\<close>.
\<close>

definition segment_values ::
  "int AddSttSegmentsInput \<Rightarrow> (nat \<Rightarrow> string) \<Rightarrow> date \<Rightarrow> number SttSegment list" where
  "segment_values input uuids now =
     map (\<lambda>(k, segment).
            \<lparr>seg_id = uuids k, jobId = jobId_in input,
             orderIndex = orderIndex_in segment,
             startTimeSeconds = startTimeSeconds_in segment,
             endTimeSeconds = endTimeSeconds_in segment,
             seg_text = text_in segment,
             speakerLabel = speakerLabel_in segment,
             confidence = confidence_in segment,
             seg_createdAt = now\<rparr>)
         (enumerate 0 (segments_in input))"

definition addSttSegments ::
  "int AddSttSegmentsInput \<Rightarrow> ActionAPIContext \<Rightarrow> (nat \<Rightarrow> string) \<Rightarrow> date \<Rightarrow> database
     \<Rightarrow> nat outcome" where
  "addSttSegments input context uuids now d =
     (case requireUser context of
        Inl e \<Rightarrow> (Inl e, d)
      | Inr u \<Rightarrow>
          (case select_job (jobId_in input) (user_id u) d of
             Inl e \<Rightarrow> (Inl e, d)
           | Inr None \<Rightarrow> (Inl (ActionError NOT_FOUND ''Speech-to-text job not found.''), d)
           | Inr (Some job) \<Rightarrow>
               (let values = segment_values input uuids now in
                case insert_segments values d of
                  Inl e \<Rightarrow> (Inl e, d)
                | Inr d' \<Rightarrow> (Inr (length values), d'))))"

record JobWithSegments =
  job :: SttJob
  segments :: "rat SttSegment list"

definition getSttJobWithSegments ::
  "string \<Rightarrow> ActionAPIContext \<Rightarrow> database \<Rightarrow> JobWithSegments outcome" where
  "getSttJobWithSegments input_id context d =
     (case requireUser context of
        Inl e \<Rightarrow> (Inl e, d)
      | Inr u \<Rightarrow>
          (case select_job input_id (user_id u) d of
             Inl e \<Rightarrow> (Inl e, d)
           | Inr None \<Rightarrow> (Inl (ActionError NOT_FOUND ''Speech-to-text job not found.''), d)
           | Inr (Some j) \<Rightarrow>
               (case select_segments (job_id j) d of
                  Inl e \<Rightarrow> (Inl e, d)
                | Inr segs \<Rightarrow> (Inr \<lparr>job = j, segments = segs\<rparr>, d))))"

record 'p ListMySttJobsInput =
  page_in :: 'p
  pageSize_in :: 'p

record JobPage =
  items :: "SttJob list"
  total_count :: nat

text \<open>
  \<open>(input.page - 1) * input.pageSize\<close> is computed in doubles: each of the two
  operations rounds its exact result.
\<close>

definition listMySttJobs ::
  "int ListMySttJobsInput \<Rightarrow> ActionAPIContext \<Rightarrow> database \<Rightarrow> JobPage outcome" where
  "listMySttJobs input context d =
     (case requireUser context of
        Inl e \<Rightarrow> (Inl e, d)
      | Inr u \<Rightarrow>
          (let offset = fl (fl (page_in input - 1) * pageSize_in input) in
           case page_rows (pageSize_in input) offset
                  (sort_key (\<lambda>j. - createdAt j)
                     (filter (\<lambda>j. userId j = user_id u) (SttJobs d))) of
             Inl e \<Rightarrow> (Inl e, d)
           | Inr rows \<Rightarrow>
               (case read_rows readable_job rows of
                  Inl e \<Rightarrow> (Inl e, d)
                | Inr its \<Rightarrow> (Inr \<lparr>items = its, total_count = length its\<rparr>, d))))"

section \<open>Input schemas and the action wrapper (astro:schema, astro:actions)\<close>

text \<open>
  Modelled from the spec: \<open>z\<close> and \<open>defineAction\<close> are external libraries. A schema
  maps the input a caller sends to the parsed input, or rejects it (\<open>None\<close>);
  \<open>defineAction\<close> runs the handler on the parsed input only, and an input the
  schema rejects fails with a validation failure before the handler body runs.
  The input a caller sends has the keys of the schema with values of the right
  JavaScript type.
\<close>

definition defineAction ::
  "('raw \<Rightarrow> 'inp option) \<Rightarrow> ('inp \<Rightarrow> ActionAPIContext \<Rightarrow> database \<Rightarrow> 'out outcome)
     \<Rightarrow> 'raw \<Rightarrow> ActionAPIContext \<Rightarrow> database \<Rightarrow> 'out outcome" where
  "defineAction schema handler raw context d =
     (case schema raw of
        None \<Rightarrow> (Inl ActionInputError, d)
      | Some input \<Rightarrow> handler input context d)"

text \<open>
  \<open>z.number().int()\<close>, \<open>.positive()\<close>, \<open>.nonnegative()\<close>, \<open>.min(m)\<close>, \<open>.max(m)\<close>, and
  the integer an accepted \<open>.int()\<close> number is.
\<close>

definition z_int :: "number \<Rightarrow> bool" where
  "z_int n = (case n of Finite r \<Rightarrow> of_int \<lfloor>r\<rfloor> = r | Infinity \<Rightarrow> False | NegInfinity \<Rightarrow> False)"

definition positive :: "number \<Rightarrow> bool" where
  "positive n = (case n of Finite r \<Rightarrow> 0 < r | Infinity \<Rightarrow> True | NegInfinity \<Rightarrow> False)"

definition nonnegative :: "number \<Rightarrow> bool" where
  "nonnegative n = (case n of Finite r \<Rightarrow> 0 \<le> r | Infinity \<Rightarrow> True | NegInfinity \<Rightarrow> False)"

definition z_min :: "rat \<Rightarrow> number \<Rightarrow> bool" where
  "z_min m n = (case n of Finite r \<Rightarrow> m \<le> r | Infinity \<Rightarrow> True | NegInfinity \<Rightarrow> False)"

definition z_max :: "rat \<Rightarrow> number \<Rightarrow> bool" where
  "z_max m n = (case n of Finite r \<Rightarrow> r \<le> m | Infinity \<Rightarrow> False | NegInfinity \<Rightarrow> True)"

definition integer_of :: "number \<Rightarrow> int" where
  "integer_of n = (case n of Finite r \<Rightarrow> \<lfloor>r\<rfloor> | Infinity \<Rightarrow> 0 | NegInfinity \<Rightarrow> 0)"

definition status_enum :: "string list" where
  "status_enum = [''queued'', ''processing'', ''completed'', ''failed'']"

text \<open>The URL syntax check of \<open>z.string().url()\<close> is the parameter \<open>is_url\<close>.\<close>

definition createSttJob_schema ::
  "(string \<Rightarrow> bool) \<Rightarrow> CreateSttJobInput \<Rightarrow> CreateSttJobInput option" where
  "createSttJob_schema is_url raw = (if is_url (inputAudioUrl_in raw) then Some raw else None)"

definition updateSttJob_schema :: "number UpdateSttJobInput \<Rightarrow> int UpdateSttJobInput option" where
  "updateSttJob_schema raw =
     (if optional (\<lambda>s. s \<in> set status_enum) (status_in raw)
         \<and> optional nonnegative (durationSeconds_in raw)
         \<and> optional (\<lambda>n. z_int n \<and> nonnegative n) (wordCount_in raw)
      then Some \<lparr>id_in = id_in raw, status_in = status_in raw,
                 transcriptText_in = transcriptText_in raw,
                 errorMessage_in = errorMessage_in raw,
                 durationSeconds_in = durationSeconds_in raw,
                 wordCount_in = map_option integer_of (wordCount_in raw),
                 completedAt_in = completedAt_in raw\<rparr>
      else None)"

definition segment_schema :: "number SegmentInput \<Rightarrow> bool" where
  "segment_schema s =
     (z_int (orderIndex_in s) \<and> positive (orderIndex_in s)
      \<and> 1 \<le> length (text_in s)
      \<and> optional nonnegative (startTimeSeconds_in s)
      \<and> optional nonnegative (endTimeSeconds_in s)
      \<and> optional (\<lambda>c. z_min 0 c \<and> z_max 1 c) (confidence_in s))"

definition parsed_segment :: "number SegmentInput \<Rightarrow> int SegmentInput" where
  "parsed_segment s =
     \<lparr>orderIndex_in = integer_of (orderIndex_in s), text_in = text_in s,
      startTimeSeconds_in = startTimeSeconds_in s,
      endTimeSeconds_in = endTimeSeconds_in s,
      speakerLabel_in = speakerLabel_in s,
      confidence_in = confidence_in s\<rparr>"

definition addSttSegments_schema ::
  "number AddSttSegmentsInput \<Rightarrow> int AddSttSegmentsInput option" where
  "addSttSegments_schema raw =
     (if list_all segment_schema (segments_in raw) \<and> 1 \<le> length (segments_in raw)
      then Some \<lparr>jobId_in = jobId_in raw,
                 segments_in = map parsed_segment (segments_in raw)\<rparr>
      else None)"

text \<open>\<open>.default(v)\<close>: an absent key is \<open>v\<close>.\<close>

definition default_value :: "'a \<Rightarrow> 'a option \<Rightarrow> 'a" where
  "default_value v x = (case x of None \<Rightarrow> v | Some y \<Rightarrow> y)"

definition listMySttJobs_schema ::
  "number option ListMySttJobsInput \<Rightarrow> int ListMySttJobsInput option" where
  "listMySttJobs_schema raw =
     (let p = default_value (Finite 1) (page_in raw);
          ps = default_value (Finite 20) (pageSize_in raw)
      in if z_int p \<and> positive p \<and> z_int ps \<and> positive ps \<and> z_max 100 ps
         then Some \<lparr>page_in = integer_of p, pageSize_in = integer_of ps\<rparr>
         else None)"

text \<open>The five actions of \<open>server\<close>.\<close>

definition server_createSttJob ::
  "(string \<Rightarrow> bool) \<Rightarrow> string \<Rightarrow> date \<Rightarrow> CreateSttJobInput \<Rightarrow> ActionAPIContext \<Rightarrow> database
     \<Rightarrow> string outcome" where
  "server_createSttJob is_url uuid now =
     defineAction (createSttJob_schema is_url) (\<lambda>input context. createSttJob input context uuid now)"

definition server_updateSttJob ::
  "number UpdateSttJobInput \<Rightarrow> ActionAPIContext \<Rightarrow> database \<Rightarrow> string outcome" where
  "server_updateSttJob = defineAction updateSttJob_schema updateSttJob"

definition server_addSttSegments ::
  "(nat \<Rightarrow> string) \<Rightarrow> date \<Rightarrow> number AddSttSegmentsInput \<Rightarrow> ActionAPIContext \<Rightarrow> database
     \<Rightarrow> nat outcome" where
  "server_addSttSegments uuids now =
     defineAction addSttSegments_schema (\<lambda>input context. addSttSegments input context uuids now)"

definition server_getSttJobWithSegments ::
  "string \<Rightarrow> ActionAPIContext \<Rightarrow> database \<Rightarrow> JobWithSegments outcome" where
  "server_getSttJobWithSegments = defineAction Some getSttJobWithSegments"

definition server_listMySttJobs ::
  "number option ListMySttJobsInput \<Rightarrow> ActionAPIContext \<Rightarrow> database \<Rightarrow> JobPage outcome" where
  "server_listMySttJobs = defineAction listMySttJobs_schema listMySttJobs"

section \<open>Well-formed databases and sample data\<close>

text \<open>The primary keys of both tables are unique: the database keeps this.\<close>

definition primary_keys_ok :: "database \<Rightarrow> bool" where
  "primary_keys_ok d =
     (distinct (map job_id (SttJobs d)) \<and> distinct (map seg_id (SttSegments d)))"

text \<open>The row of a job in the table, by id and owner, whether or not the client can read it.\<close>

definition job_row :: "string \<Rightarrow> string \<Rightarrow> database \<Rightarrow> SttJob option" where
  "job_row i uid d = find (\<lambda>j. job_id j = i \<and> userId j = uid) (SttJobs d)"

text \<open>Two users, their request contexts, and the contexts of a caller who is not signed in.\<close>

definition alice :: User where
  "alice = \<lparr>user_id = ''alice''\<rparr>"

definition bob :: User where
  "bob = \<lparr>user_id = ''bob''\<rparr>"

definition signed_in :: "User \<Rightarrow> ActionAPIContext" where
  "signed_in u = \<lparr>locals = Some \<lparr>user = Some u\<rparr>\<rparr>"

definition anonymous :: ActionAPIContext where
  "anonymous = \<lparr>locals = Some \<lparr>user = None\<rparr>\<rparr>"

definition no_locals :: ActionAPIContext where
  "no_locals = \<lparr>locals = None\<rparr>"

text \<open>
  A database with three jobs (two of alice, one of bob) and three segments, stored
  out of order.
\<close>

definition job_a :: SttJob where
  "job_a = \<lparr>job_id = ''job-a'', userId = ''alice'', inputAudioUrl = ''https://x/a.mp3'',
            audioFormat = Some ''mp3'', language = None, modelName = None,
            transcriptText = Some ''hello world'', durationSeconds = Some (3 / 2),
            wordCount = Some 2, status = Some ''processing'', errorMessage = None,
            createdAt = 100, completedAt = None\<rparr>"

definition job_b :: SttJob where
  "job_b = \<lparr>job_id = ''job-b'', userId = ''bob'', inputAudioUrl = ''https://x/b.wav'',
            audioFormat = None, language = Some ''en'', modelName = None,
            transcriptText = None, durationSeconds = None,
            wordCount = None, status = Some ''queued'', errorMessage = None,
            createdAt = 200, completedAt = None\<rparr>"

definition job_c :: SttJob where
  "job_c = \<lparr>job_id = ''job-c'', userId = ''alice'', inputAudioUrl = ''https://x/c.mp3'',
            audioFormat = None, language = None, modelName = None,
            transcriptText = None, durationSeconds = None,
            wordCount = None, status = Some ''queued'', errorMessage = None,
            createdAt = 300, completedAt = None\<rparr>"

definition seg_row :: "string \<Rightarrow> string \<Rightarrow> int \<Rightarrow> string \<Rightarrow> rat SttSegment" where
  "seg_row i j n t =
     \<lparr>seg_id = i, jobId = j, orderIndex = n, startTimeSeconds = None,
      endTimeSeconds = None, seg_text = t, speakerLabel = None, confidence = None,
      seg_createdAt = 150\<rparr>"

definition sample_db :: database where
  "sample_db =
     \<lparr>SttJobs = [job_a, job_b, job_c],
      SttSegments = [seg_row ''s2'' ''job-a'' 2 ''world'',
                     seg_row ''s3'' ''job-b'' 1 ''other'',
                     seg_row ''s1'' ''job-a'' 1 ''hello'']\<rparr>"

definition empty_db :: database where
  "empty_db = \<lparr>SttJobs = [], SttSegments = []\<rparr>"

text \<open>Inputs for the samples.\<close>

definition create_sample :: CreateSttJobInput where
  "create_sample = \<lparr>inputAudioUrl_in = ''https://x/a.mp3'', audioFormat_in = None,
                    language_in = None, modelName_in = None\<rparr>"

definition update_only :: "string \<Rightarrow> string option \<Rightarrow> string option \<Rightarrow> 'n UpdateSttJobInput" where
  "update_only i st err =
     \<lparr>id_in = i, status_in = st, transcriptText_in = None, errorMessage_in = err,
      durationSeconds_in = None, wordCount_in = None, completedAt_in = None\<rparr>"

definition seg_in :: "'n \<Rightarrow> string \<Rightarrow> number option \<Rightarrow> 'n SegmentInput" where
  "seg_in n t c =
     \<lparr>orderIndex_in = n, text_in = t, startTimeSeconds_in = None,
      endTimeSeconds_in = None, speakerLabel_in = None, confidence_in = c\<rparr>"

text \<open>A stand-in for the URL syntax check in the samples.\<close>

definition sample_is_url :: "string \<Rightarrow> bool" where
  "sample_is_url s = (take 8 s = ''https://'')"

definition sample_uuids :: "nat \<Rightarrow> string" where
  "sample_uuids k = (if k = 0 then ''u0'' else if k = 1 then ''u1'' else ''u2'')"

text \<open>Databases and inputs with numbers at the limits of the client.\<close>

definition big_index_db :: database where
  "big_index_db =
     \<lparr>SttJobs = [job_a, job_b, job_c],
      SttSegments = [seg_row ''s2'' ''job-a'' 2 ''world'',
                     seg_row ''s3'' ''job-b'' 1 ''other'',
                     seg_row ''s1'' ''job-a'' 1 ''hello'',
                     seg_row ''u0'' ''job-a'' 9007199254740992 ''late'']\<rparr>"




section \<open>Basic facts\<close>

lemmas sample_defs = sample_db_def job_a_def job_b_def job_c_def seg_row_def
  alice_def bob_def signed_in_def anonymous_def no_locals_def current_user_def
  update_only_def create_sample_def seg_in_def empty_db_def

lemma alice_signed_in: "current_user (signed_in alice) = Some alice"
  by (simp add: current_user_def signed_in_def)

lemma job_a_in_sample: "job_a \<in> set (SttJobs sample_db)"
  by (simp add: sample_db_def)

lemma sample_keys_ok: "primary_keys_ok sample_db"
  by (simp add: primary_keys_ok_def sample_db_def job_a_def job_b_def job_c_def seg_row_def)

lemma job_a_readable: "readable_job job_a"
  by (simp add: readable_job_def job_a_def optional_def unsafe_stored_def unsafe_integer_def)

lemma requireUser_None: "current_user context = None \<Longrightarrow>
  requireUser context = Inl (ActionError UNAUTHORIZED ''You must be signed in to perform this action.'')"
  by (simp add: requireUser_def)

lemma requireUser_Some: "current_user context = Some u \<Longrightarrow> requireUser context = Inr u"
  by (simp add: requireUser_def)


lemma fl_samples:
  "fl 9007199254740993 = 9007199254740992"
  "fl 9007199254740995 = 9007199254740996"
  "fl (fl (9007199254740992 - 1) * 3) = 27021597764222972"
  "fl (- 9007199254740993) = - 9007199254740992"
  by (simp_all add: fl_def round53.simps)

lemma filter_unique:
  assumes "distinct (map k xs)" and "x \<in> set xs" and "P x" and "\<And>y. P y \<Longrightarrow> k y = k x"
  shows "filter P xs = [x]"
  using assms(1,2)
proof (induction xs)
  case Nil
  then show ?case by simp
next
  case (Cons a xs)
  have none: "filter P xs = []" if "k x \<notin> k ` set xs"
  proof -
    have "\<not> P y" if "y \<in> set xs" for y
    proof
      assume "P y"
      then have "k y = k x" by (rule assms(4))
      then show False using \<open>k x \<notin> k ` set xs\<close> \<open>y \<in> set xs\<close> by (metis imageI)
    qed
    then show ?thesis by (simp add: filter_empty_conv)
  qed
  show ?case
  proof (cases "P a")
    case True
    have "k a = k x" using True by (rule assms(4))
    moreover have "k a \<notin> k ` set xs" using Cons.prems(1) by simp
    ultimately have nx: "k x \<notin> k ` set xs" by simp
    then have "x \<notin> set xs" by (metis imageI)
    then have "a = x" using Cons.prems(2) by simp
    then show ?thesis using True none [OF nx] by simp
  next
    case False
    then have "x \<noteq> a" using assms(3) by blast
    then have "x \<in> set xs" using Cons.prems(2) by simp
    moreover have "distinct (map k xs)" using Cons.prems(1) by simp
    ultimately have "filter P xs = [x]" by (rule Cons.IH [rotated])
    then show ?thesis using False by simp
  qed
qed

lemma find_first_of_filter:
  "find P xs = (case filter P xs of [] \<Rightarrow> None | x # rest \<Rightarrow> Some x)"
  by (induction xs) simp_all

lemma owned_rows:
  assumes "primary_keys_ok d" and "j \<in> set (SttJobs d)" and "userId j = uid"
  shows "filter (\<lambda>r. job_id r = job_id j \<and> userId r = uid) (SttJobs d) = [j]"
  by (rule filter_unique [where k = job_id]) (use assms in \<open>auto simp: primary_keys_ok_def\<close>)

lemma select_job_owned:
  assumes "primary_keys_ok d" and "j \<in> set (SttJobs d)" and "userId j = uid"
  shows "select_job (job_id j) uid d = (if readable_job j then Inr (Some j) else Inl RangeError)"
  by (simp add: select_job_def owned_rows [OF assms] read_rows_def)

lemma job_row_owned:
  assumes "primary_keys_ok d" and "j \<in> set (SttJobs d)" and "userId j = uid"
  shows "job_row (job_id j) uid d = Some j"
proof -
  show ?thesis
    by (simp add: job_row_def find_first_of_filter owned_rows [OF assms])
qed

lemma select_job_None:
  assumes "\<not> (\<exists>j \<in> set (SttJobs d). job_id j = i \<and> userId j = uid)"
  shows "select_job i uid d = Inr None"
proof -
  have "filter (\<lambda>j. job_id j = i \<and> userId j = uid) (SttJobs d) = []"
    using assms by (auto simp: filter_empty_conv)
  then show ?thesis
    by (simp add: select_job_def read_rows_def)
qed

lemma select_job_SomeD:
  assumes "select_job i uid d = Inr (Some j)"
  shows "j \<in> set (SttJobs d)" and "job_id j = i" and "userId j = uid" and "readable_job j"
proof -
  let ?rows = "filter (\<lambda>j. job_id j = i \<and> userId j = uid) (SttJobs d)"
  have ok: "list_all readable_job ?rows"
    using assms by (simp add: select_job_def read_rows_def split: if_splits)
  then have "(case ?rows of [] \<Rightarrow> None | r # rest \<Rightarrow> Some r) = Some j"
    using assms by (simp add: select_job_def read_rows_def)
  then obtain rest where rows: "?rows = j # rest"
    by (cases ?rows) simp_all
  then have "j \<in> set ?rows" by simp
  then show "j \<in> set (SttJobs d)" and "job_id j = i" and "userId j = uid"
    by simp_all
  show "readable_job j"
    using ok rows by simp
qed

lemma z_int_Finite: "z_int (Finite r) \<longleftrightarrow> r \<in> \<int>"
proof
  assume "z_int (Finite r)"
  then have "of_int \<lfloor>r\<rfloor> = r" by (simp add: z_int_def)
  then show "r \<in> \<int>" by (metis Ints_of_int)
next
  assume "r \<in> \<int>"
  then show "z_int (Finite r)" by (simp add: z_int_def of_int_floor)
qed

lemma updateSttJob_schema_status:
  assumes "status_in raw = Some s" and "s \<notin> {''queued'', ''processing'', ''completed'', ''failed''}"
  shows "updateSttJob_schema raw = None"
  using assms by (simp add: updateSttJob_schema_def optional_def status_enum_def)

lemma segment_schema_rejects:
  assumes "text_in g = []
           \<or> (\<exists>r. orderIndex_in g = Finite r \<and> (r \<le> 0 \<or> r \<notin> \<int>))
           \<or> orderIndex_in g = Infinity \<or> orderIndex_in g = NegInfinity
           \<or> (\<exists>c. confidence_in g = Some c
                 \<and> ((\<exists>r. c = Finite r \<and> (r < 0 \<or> 1 < r)) \<or> c = Infinity \<or> c = NegInfinity))"
  shows "\<not> segment_schema g"
  using assms
  by (auto simp: segment_schema_def z_int_Finite positive_def optional_def z_min_def z_max_def
      z_int_def)

lemma addSttSegments_schema_rejects:
  assumes "segments_in raw = [] \<or> (\<exists>g \<in> set (segments_in raw). \<not> segment_schema g)"
  shows "addSttSegments_schema raw = None"
  using assms by (auto simp: addSttSegments_schema_def list_all_iff)

lemma createSttJob_fresh:
  assumes "current_user context = Some u" and "uuid \<notin> set (map job_id (SttJobs d))"
  shows "createSttJob input context uuid now d
           = (Inr uuid,
              d\<lparr>SttJobs := SttJobs d @
                 [\<lparr>job_id = uuid, userId = user_id u,
                   inputAudioUrl = inputAudioUrl_in input,
                   audioFormat = audioFormat_in input,
                   language = language_in input,
                   modelName = modelName_in input,
                   transcriptText = None, durationSeconds = None, wordCount = None,
                   status = Some ''queued'', errorMessage = None,
                   createdAt = now, completedAt = None\<rparr>]\<rparr>)"
  using requireUser_Some [OF assms(1)] assms(2)
  by (simp add: createSttJob_def insert_job_def)

lemma filter_append_fresh:
  assumes "\<forall>x \<in> set xs. \<not> P x" and "P y"
  shows "filter P (xs @ [y]) = [y]"
  using assms by (induction xs) simp_all

lemma nullish_None [simp]: "nullish None b = b"
  by (simp add: nullish_def)

lemma nullish_cases: "nullish a b = b \<or> (a \<noteq> None \<and> nullish a b = a)"
  by (cases a) (simp_all add: nullish_def)

lemma stored_Finite [simp]: "map_option stored (map_option Finite x) = x"
  by (cases x) (simp_all add: stored_def)

lemma set_fields_frame [simp]:
  "job_id (set_fields f r) = job_id r"
  "userId (set_fields f r) = userId r"
  "inputAudioUrl (set_fields f r) = inputAudioUrl r"
  "audioFormat (set_fields f r) = audioFormat r"
  "language (set_fields f r) = language r"
  "modelName (set_fields f r) = modelName r"
  "createdAt (set_fields f r) = createdAt r"
  by (simp_all add: set_fields_def)

lemma set_fields_merged:
  "status (set_fields (fieldsToUpdate input j) r) = nullish (status_in input) (status j)"
  "transcriptText (set_fields (fieldsToUpdate input j) r)
     = nullish (transcriptText_in input) (transcriptText j)"
  "errorMessage (set_fields (fieldsToUpdate input j) r)
     = nullish (errorMessage_in input) (errorMessage j)"
  "wordCount (set_fields (fieldsToUpdate input j) r) = nullish (wordCount_in input) (wordCount j)"
  "completedAt (set_fields (fieldsToUpdate input j) r)
     = nullish (completedAt_in input) (completedAt j)"
  "durationSeconds_in input = None
     \<Longrightarrow> durationSeconds (set_fields (fieldsToUpdate input j) r) = durationSeconds j"
  by (simp_all add: set_fields_def fieldsToUpdate_def)

lemma bindable_merged:
  "optional bindable (durationSeconds_set (fieldsToUpdate input j))
     = optional bindable (durationSeconds_in input)"
  by (cases "durationSeconds_in input"; cases "durationSeconds j")
    (simp_all add: fieldsToUpdate_def nullish_def optional_def bindable_def)

text \<open>The database after the update statement for the job \<open>j\<close> has run.\<close>

lemma update_jobs_merged:
  "update_jobs (fieldsToUpdate input j) i d
     = (if optional bindable (durationSeconds_in input)
        then Inr (d\<lparr>SttJobs := map (\<lambda>r. if job_id r = i then set_fields (fieldsToUpdate input j) r
                                       else r) (SttJobs d)\<rparr>)
        else Inl RangeError)"
  by (simp add: update_jobs_def bindable_merged)

lemma updateSttJob_owned:
  assumes "primary_keys_ok d" and "current_user context = Some u"
    and "j \<in> set (SttJobs d)" and "job_id j = id_in input" and "userId j = user_id u"
  shows "updateSttJob input context d
           = (if readable_job j \<and> optional bindable (durationSeconds_in input)
              then (Inr (id_in input),
                    d\<lparr>SttJobs := map (\<lambda>r. if job_id r = job_id j
                                           then set_fields (fieldsToUpdate input j) r else r)
                                     (SttJobs d)\<rparr>)
              else (Inl RangeError, d))"
proof -
  have sel: "select_job (id_in input) (user_id u) d
               = (if readable_job j then Inr (Some j) else Inl RangeError)"
    using select_job_owned [OF assms(1,3,5)] assms(4) by simp
  show ?thesis
    using requireUser_Some [OF assms(2)] assms(4)
    by (simp add: updateSttJob_def sel update_jobs_merged)
qed

lemma updateSttJob_cases:
  "updateSttJob input context d = (fst (updateSttJob input context d), d)
   \<or> (\<exists>j. j \<in> set (SttJobs d)
          \<and> updateSttJob input context d
              = (Inr (job_id j),
                 d\<lparr>SttJobs := map (\<lambda>r. if job_id r = job_id j
                                        then set_fields (fieldsToUpdate input j) r else r)
                                  (SttJobs d)\<rparr>))"
proof (cases "requireUser context")
  case (Inl e)
  then show ?thesis by (simp add: updateSttJob_def)
next
  case (Inr u)
  show ?thesis
  proof (cases "select_job (id_in input) (user_id u) d")
    case (Inl e)
    then show ?thesis using Inr by (simp add: updateSttJob_def)
  next
    case sel: (Inr found)
    show ?thesis
    proof (cases found)
      case None
      then show ?thesis using Inr sel by (simp add: updateSttJob_def)
    next
      case (Some j)
      then have j: "j \<in> set (SttJobs d)"
        using sel select_job_SomeD(1) by simp
      show ?thesis
      proof (cases "optional bindable (durationSeconds_in input)")
        case True
        then have "updateSttJob input context d
              = (Inr (job_id j),
                 d\<lparr>SttJobs := map (\<lambda>r. if job_id r = job_id j
                                        then set_fields (fieldsToUpdate input j) r else r)
                                  (SttJobs d)\<rparr>)"
          using Inr sel Some by (simp add: updateSttJob_def update_jobs_merged)
        then show ?thesis using j by blast
      next
        case False
        then show ?thesis
          using Inr sel Some by (simp add: updateSttJob_def update_jobs_merged)
      qed
    qed
  qed
qed

lemma find_map_preserved:
  assumes "\<And>x. P (f x) = P x"
  shows "find P (map f xs) = map_option f (find P xs)"
  by (induction xs) (simp_all add: assms)

lemma job_row_updated:
  "job_row i uid (d\<lparr>SttJobs := map (\<lambda>r. if job_id r = k then set_fields f r else r) (SttJobs d)\<rparr>)
     = map_option (\<lambda>r. if job_id r = k then set_fields f r else r) (job_row i uid d)"
proof -
  let ?P = "\<lambda>r. job_id r = i \<and> userId r = uid"
  let ?g = "\<lambda>r. if job_id r = k then set_fields f r else r"
  have pres: "?P (?g x) = ?P x" for x
    by simp
  have "find ?P (map ?g (SttJobs d)) = map_option ?g (find ?P (SttJobs d))"
    by (rule find_map_preserved) (rule pres)
  then show ?thesis
    by (simp add: job_row_def)
qed

lemma same_key_same_row:
  assumes "distinct (map k xs)" and "x \<in> set xs" and "y \<in> set xs" and "k x = k y"
  shows "x = y"
  using assms by (meson distinct_map inj_onD)

lemma update_errorMessage:
  assumes "primary_keys_ok d" and "j \<in> set (SttJobs d)" and "n < length (SttJobs d)"
  shows "errorMessage (map (\<lambda>r. if job_id r = job_id j
                                  then set_fields (fieldsToUpdate input j) r else r)
                           (SttJobs d) ! n)
             = errorMessage (SttJobs d ! n)
         \<or> (errorMessage_in input \<noteq> None
            \<and> errorMessage (map (\<lambda>r. if job_id r = job_id j
                                       then set_fields (fieldsToUpdate input j) r else r)
                                (SttJobs d) ! n)
                = errorMessage_in input)"
proof -
  let ?r = "SttJobs d ! n"
  let ?g = "\<lambda>r. if job_id r = job_id j then set_fields (fieldsToUpdate input j) r else r"
  have nth: "map ?g (SttJobs d) ! n = ?g ?r"
    using assms(3) by simp
  show ?thesis
  proof (cases "job_id ?r = job_id j")
    case True
    have "?r \<in> set (SttJobs d)" using assms(3) by simp
    then have "?r = j"
      using same_key_same_row [of job_id "SttJobs d" ?r j] assms(1,2) True
      by (simp add: primary_keys_ok_def)
    then show ?thesis
      unfolding nth using True nullish_cases [of "errorMessage_in input" "errorMessage j"]
      by (simp add: set_fields_merged)
  next
    case False
    then show ?thesis unfolding nth by simp
  qed
qed

lemma createSttJob_snd_cases:
  "snd (createSttJob ci context uuid now d) = d
   \<or> (\<exists>row. SttJobs (snd (createSttJob ci context uuid now d)) = SttJobs d @ [row]
         \<and> errorMessage row = None \<and> status row = Some ''queued'')"
  by (simp add: createSttJob_def insert_job_def Let_def split: sum.splits)

lemma list_all_sort_key [simp]: "list_all P (sort_key f xs) = list_all P xs"
  by (simp add: list_all_iff)

lemma getSttJobWithSegments_owned:
  assumes "primary_keys_ok d" and "current_user context = Some u"
    and "j \<in> set (SttJobs d)" and "job_id j = i" and "userId j = user_id u"
  shows "getSttJobWithSegments i context d
           = (if readable_job j
                 \<and> list_all readable_segment (filter (\<lambda>s. jobId s = i) (SttSegments d))
              then (Inr \<lparr>job = j,
                         segments = sort_key orderIndex
                                      (filter (\<lambda>s. jobId s = i) (SttSegments d))\<rparr>, d)
              else (Inl RangeError, d))"
  using requireUser_Some [OF assms(2)] select_job_owned [OF assms(1,3,5)] assms(4)
  by (simp add: getSttJobWithSegments_def select_segments_def read_rows_def)

lemma sorted_same_keys:
  assumes "mset xs = mset ys"
  shows "map f (sort_key f xs) = map f (sort_key f ys)"
proof -
  have "mset (map f (sort_key f xs)) = mset (map f (sort_key f ys))"
    using assms by simp
  moreover have "sorted (map f (sort_key f xs))" and "sorted (map f (sort_key f ys))"
    by simp_all
  ultimately show ?thesis
    by (metis properties_for_sort)
qed

lemma sample_segments_readable:
  "\<forall>s \<in> set (SttSegments sample_db). jobId s = ''job-a'' \<longrightarrow> readable_segment s"
  by (simp add: sample_db_def seg_row_def readable_segment_def unsafe_integer_def optional_def)




lemma z_int_positive:
  assumes "z_int x" and "positive x"
  shows "1 \<le> integer_of x \<and> x = Finite (of_int (integer_of x))"
proof (cases x)
  case (Finite r)
  have e: "of_int \<lfloor>r\<rfloor> = r"
    using assms(1) unfolding Finite z_int_def number.simps .
  have "0 < r"
    using assms(2) unfolding Finite positive_def number.simps .
  then have "(0::rat) < of_int \<lfloor>r\<rfloor>"
    by (simp only: e)
  then have "0 < \<lfloor>r\<rfloor>"
    by (simp only: of_int_0_less_iff)
  then have p: "1 \<le> \<lfloor>r\<rfloor>" by linarith
  have i: "integer_of x = \<lfloor>r\<rfloor>"
    unfolding Finite integer_of_def number.simps ..
  show ?thesis
    unfolding i using p by (intro conjI) (assumption, simp only: Finite e)
next
  case Infinity
  then show ?thesis using assms(1) by (simp add: z_int_def)
next
  case NegInfinity
  then show ?thesis using assms(1) by (simp add: z_int_def)
qed

lemma listMySttJobs_schema_valid:
  assumes "listMySttJobs_schema raw = Some input"
  shows "1 \<le> page_in input \<and> 1 \<le> pageSize_in input \<and> pageSize_in input \<le> 100"
proof -
  let ?p = "default_value (Finite 1) (page_in raw)"
  let ?ps = "default_value (Finite 20) (pageSize_in raw)"
  have ok: "z_int ?p" "positive ?p" "z_int ?ps" "positive ?ps" "z_max 100 ?ps"
    and input: "input = \<lparr>page_in = integer_of ?p, pageSize_in = integer_of ?ps\<rparr>"
    using assms by (simp_all add: listMySttJobs_schema_def Let_def split: if_splits)
  have p: "1 \<le> integer_of ?p"
    using z_int_positive [OF ok(1,2)] by simp
  have ps: "1 \<le> integer_of ?ps" and f: "?ps = Finite (of_int (integer_of ?ps))"
    using z_int_positive [OF ok(3,4)] by simp_all
  have "z_max 100 (Finite (of_int (integer_of ?ps)))"
    using ok(5) f by simp
  then have "(of_int (integer_of ?ps) :: rat) \<le> 100"
    by (simp add: z_max_def)
  then have "(of_int (integer_of ?ps) :: rat) \<le> of_int 100"
    by simp
  then have le: "integer_of ?ps \<le> 100"
    by (simp only: of_int_le_iff)
  have "page_in input = integer_of ?p" and "pageSize_in input = integer_of ?ps"
    by (simp_all only: input ListMySttJobsInput.simps)
  then show ?thesis
    using p ps le by (simp only: simp_thms)
qed




lemma length_segment_values [simp]:
  "length (segment_values input uuids now) = length (segments_in input)"
  by (simp add: segment_values_def)



lemma seg_id_stored_segment [simp]: "seg_id (stored_segment v) = seg_id v"
  by (simp add: stored_segment_def)






section \<open>C1: a job of another user is not found\<close>

text \<open>
  C1. For an authenticated user, when no row of \<open>SttJobs\<close> has both the given id and
  the requesting user as owner, \<open>updateSttJob\<close> and \<open>getSttJobWithSegments\<close> fail
  with the same \<open>NOT_FOUND\<close> error, whether the id is missing or belongs to someone
  else, and leave the database as it was.
\<close>

theorem C1_not_found:
  assumes "current_user context = Some u"
    and "\<not> (\<exists>j \<in> set (SttJobs d). job_id j = i \<and> userId j = user_id u)"
    and "id_in input = i"
  shows "updateSttJob input context d
           = (Inl (ActionError NOT_FOUND ''Speech-to-text job not found.''), d)
       \<and> getSttJobWithSegments i context d
           = (Inl (ActionError NOT_FOUND ''Speech-to-text job not found.''), d)"
proof -
  have "select_job i (user_id u) d = Inr None"
    using assms(2) by (rule select_job_None)
  then show ?thesis
    using requireUser_Some [OF assms(1)] assms(3)
    by (simp add: updateSttJob_def getSttJobWithSegments_def)
qed

theorem C1_not_found_witness:
  "current_user (signed_in bob) = Some bob
   \<and> job_a \<in> set (SttJobs sample_db) \<and> job_id job_a = ''job-a'' \<and> userId job_a = ''alice''
   \<and> updateSttJob (update_only ''job-a'' (Some ''failed'') None) (signed_in bob) sample_db
       = (Inl (ActionError NOT_FOUND ''Speech-to-text job not found.''), sample_db)
   \<and> getSttJobWithSegments ''job-a'' (signed_in bob) sample_db
       = (Inl (ActionError NOT_FOUND ''Speech-to-text job not found.''), sample_db)
   \<and> updateSttJob (update_only ''missing'' (Some ''failed'') None) (signed_in bob) sample_db
       = (Inl (ActionError NOT_FOUND ''Speech-to-text job not found.''), sample_db)
   \<and> getSttJobWithSegments ''missing'' (signed_in bob) sample_db
       = (Inl (ActionError NOT_FOUND ''Speech-to-text job not found.''), sample_db)"
proof -
  have u: "current_user (signed_in bob) = Some bob"
    by (simp add: current_user_def signed_in_def)
  have own: "\<not> (\<exists>j \<in> set (SttJobs sample_db). job_id j = ''job-a'' \<and> userId j = user_id bob)"
    by (simp add: sample_defs)
  have none: "\<not> (\<exists>j \<in> set (SttJobs sample_db). job_id j = ''missing'' \<and> userId j = user_id bob)"
    by (simp add: sample_defs)
  have i1: "id_in (update_only ''job-a'' (Some ''failed'') None :: int UpdateSttJobInput) = ''job-a''"
    by (simp add: update_only_def)
  have i2: "id_in (update_only ''missing'' (Some ''failed'') None :: int UpdateSttJobInput) = ''missing''"
    by (simp add: update_only_def)
  have facts: "job_a \<in> set (SttJobs sample_db) \<and> job_id job_a = ''job-a'' \<and> userId job_a = ''alice''"
    by (simp add: sample_db_def job_a_def)
  show ?thesis
    using u facts C1_not_found [OF u own i1] C1_not_found [OF u none i2]
    by simp
qed

section \<open>C2: update is a merge\<close>

text \<open>
  C2. For an owned job, each of \<open>status\<close>, \<open>transcriptText\<close>, \<open>errorMessage\<close>,
  \<open>durationSeconds\<close>, \<open>wordCount\<close> and \<open>completedAt\<close> that the input of
  \<open>updateSttJob\<close> does not supply has, in the job after the call, the value it had
  before; the call succeeds when the client can read the job's row and send the
  arguments, and writes nothing otherwise.
\<close>

theorem C2_merge_update:
  assumes "primary_keys_ok d" and "current_user context = Some u"
    and "j \<in> set (SttJobs d)" and "job_id j = id_in input" and "userId j = user_id u"
  shows "\<exists>r d' j'. updateSttJob input context d = (r, d')
           \<and> r = (if readable_job j \<and> optional bindable (durationSeconds_in input)
                  then Inr (id_in input) else Inl RangeError)
           \<and> job_row (id_in input) (user_id u) d' = Some j'
           \<and> (status_in input = None \<longrightarrow> status j' = status j)
           \<and> (transcriptText_in input = None \<longrightarrow> transcriptText j' = transcriptText j)
           \<and> (errorMessage_in input = None \<longrightarrow> errorMessage j' = errorMessage j)
           \<and> (durationSeconds_in input = None \<longrightarrow> durationSeconds j' = durationSeconds j)
           \<and> (wordCount_in input = None \<longrightarrow> wordCount j' = wordCount j)
           \<and> (completedAt_in input = None \<longrightarrow> completedAt j' = completedAt j)"
proof -
  let ?g = "\<lambda>r. if job_id r = job_id j then set_fields (fieldsToUpdate input j) r else r"
  let ?d' = "d\<lparr>SttJobs := map ?g (SttJobs d)\<rparr>"
  have row: "job_row (id_in input) (user_id u) d = Some j"
    using job_row_owned [OF assms(1,3,5)] assms(4) by simp
  note run = updateSttJob_owned [OF assms]
  show ?thesis
  proof (cases "readable_job j \<and> optional bindable (durationSeconds_in input)")
    case True
    let ?j' = "set_fields (fieldsToUpdate input j) j"
    have r: "updateSttJob input context d = (Inr (id_in input), ?d')"
      using run True by simp
    have ok: "(Inr (id_in input) :: failure + string)
                = (if readable_job j \<and> optional bindable (durationSeconds_in input)
                   then Inr (id_in input) else Inl RangeError)"
      using True by simp
    have row': "job_row (id_in input) (user_id u) ?d' = Some ?j'"
      by (simp add: job_row_updated row)
    have fields: "status_in input = None \<longrightarrow> status ?j' = status j"
      "transcriptText_in input = None \<longrightarrow> transcriptText ?j' = transcriptText j"
      "errorMessage_in input = None \<longrightarrow> errorMessage ?j' = errorMessage j"
      "durationSeconds_in input = None \<longrightarrow> durationSeconds ?j' = durationSeconds j"
      "wordCount_in input = None \<longrightarrow> wordCount ?j' = wordCount j"
      "completedAt_in input = None \<longrightarrow> completedAt ?j' = completedAt j"
      by (simp_all add: set_fields_merged)
    from r ok row' fields show ?thesis
      by (intro exI [of _ "Inr (id_in input)"] exI [of _ ?d'] exI [of _ ?j'] conjI)
  next
    case False
    have r: "updateSttJob input context d = (Inl RangeError, d)"
      using run False by simp
    have ok: "(Inl RangeError :: failure + string)
                = (if readable_job j \<and> optional bindable (durationSeconds_in input)
                   then Inr (id_in input) else Inl RangeError)"
      using False by simp
    have fields: "status_in input = None \<longrightarrow> status j = status j"
      "transcriptText_in input = None \<longrightarrow> transcriptText j = transcriptText j"
      "errorMessage_in input = None \<longrightarrow> errorMessage j = errorMessage j"
      "durationSeconds_in input = None \<longrightarrow> durationSeconds j = durationSeconds j"
      "wordCount_in input = None \<longrightarrow> wordCount j = wordCount j"
      "completedAt_in input = None \<longrightarrow> completedAt j = completedAt j"
      by simp_all
    from r ok row fields show ?thesis
      by (intro exI [of _ "Inl RangeError"] exI [of _ d] exI [of _ j] conjI)
  qed
qed

theorem C2_merge_update_witness:
  "primary_keys_ok sample_db \<and> current_user (signed_in alice) = Some alice
   \<and> job_a \<in> set (SttJobs sample_db) \<and> readable_job job_a
   \<and> (\<exists>d' j'. updateSttJob (update_only ''job-a'' (Some ''completed'') None)
                  (signed_in alice) sample_db = (Inr ''job-a'', d')
          \<and> job_row ''job-a'' ''alice'' d' = Some j'
          \<and> transcriptText j' = Some ''hello world''
          \<and> errorMessage j' = None
          \<and> durationSeconds j' = Some (3 / 2)
          \<and> wordCount j' = Some 2
          \<and> completedAt j' = None)"
proof -
  let ?input = "update_only ''job-a'' (Some ''completed'') None :: int UpdateSttJobInput"
  have i: "job_id job_a = id_in ?input"
    by (simp add: job_a_def update_only_def)
  have o: "userId job_a = user_id alice"
    by (simp add: job_a_def alice_def)
  have b: "optional bindable (durationSeconds_in ?input)"
    by (simp add: update_only_def optional_def)
  obtain r d' j' where all: "updateSttJob ?input (signed_in alice) sample_db = (r, d')
           \<and> r = (if readable_job job_a \<and> optional bindable (durationSeconds_in ?input)
                then Inr (id_in ?input) else Inl RangeError)
           \<and> job_row (id_in ?input) (user_id alice) d' = Some j'
           \<and> (status_in ?input = None \<longrightarrow> status j' = status job_a)
           \<and> (transcriptText_in ?input = None \<longrightarrow> transcriptText j' = transcriptText job_a)
           \<and> (errorMessage_in ?input = None \<longrightarrow> errorMessage j' = errorMessage job_a)
           \<and> (durationSeconds_in ?input = None \<longrightarrow> durationSeconds j' = durationSeconds job_a)
           \<and> (wordCount_in ?input = None \<longrightarrow> wordCount j' = wordCount job_a)
           \<and> (completedAt_in ?input = None \<longrightarrow> completedAt j' = completedAt job_a)"
    using C2_merge_update [OF sample_keys_ok alice_signed_in job_a_in_sample i o]
    by (elim exE) (rule that)
  have r: "r = Inr ''job-a''"
    using all job_a_readable b by (simp add: update_only_def)
  have run: "updateSttJob ?input (signed_in alice) sample_db = (Inr ''job-a'', d')"
    using all r by simp
  have row: "job_row ''job-a'' ''alice'' d' = Some j'"
    using all by (simp add: update_only_def alice_def)
  have f: "transcriptText j' = Some ''hello world''" "errorMessage j' = None"
    "durationSeconds j' = Some (3 / 2)" "wordCount j' = Some 2" "completedAt j' = None"
    using all by (simp_all add: update_only_def job_a_def)
  from run row f
  have "\<exists>d' j'. updateSttJob (update_only ''job-a'' (Some ''completed'') None)
                  (signed_in alice) sample_db = (Inr ''job-a'', d')
          \<and> job_row ''job-a'' ''alice'' d' = Some j'
          \<and> transcriptText j' = Some ''hello world''
          \<and> errorMessage j' = None
          \<and> durationSeconds j' = Some (3 / 2)
          \<and> wordCount j' = Some 2
          \<and> completedAt j' = None"
    by (intro exI [of _ d'] exI [of _ j'] conjI)
  then show ?thesis
    using sample_keys_ok alice_signed_in job_a_in_sample job_a_readable by (intro conjI)
qed

section \<open>C3: the user check and the schema\<close>

text \<open>
  C3. With no authenticated user every operation fails with \<open>UNAUTHORIZED\<close> before
  any other logic runs. The actions do not: the schema of an action is checked
  before its handler runs, so an input the schema rejects fails with the validation
  failure, whether or not a user is signed in.
\<close>

theorem C3_counterexample:
  "current_user anonymous = None
   \<and> server_updateSttJob (update_only ''job-a'' (Some ''done'') None) anonymous sample_db
       = (Inl ActionInputError, sample_db)"
  by (simp add: current_user_def anonymous_def server_updateSttJob_def defineAction_def
      updateSttJob_schema_def optional_def status_enum_def update_only_def)

text \<open>
  C3, as the actions have it: when the request context has no authenticated user,
  each of the five operations whose input passes its schema fails with
  \<open>UNAUTHORIZED\<close>, whatever the input and whatever the database holds (so before the
  ownership lookup and before any statement), and leaves the database as it was;
  an input that the schema rejects fails with the validation failure instead, and
  leaves the database as it was too. The handler bodies themselves fail with
  \<open>UNAUTHORIZED\<close> on every parsed input.
\<close>

theorem C3_unauthorized_after_schema:
  assumes "current_user context = None"
  shows "server_createSttJob is_url uuid now craw context d
           = (case createSttJob_schema is_url craw of
                None \<Rightarrow> (Inl ActionInputError, d)
              | Some input \<Rightarrow>
                  (Inl (ActionError UNAUTHORIZED ''You must be signed in to perform this action.''), d))
       \<and> server_updateSttJob uraw context d
           = (case updateSttJob_schema uraw of
                None \<Rightarrow> (Inl ActionInputError, d)
              | Some input \<Rightarrow>
                  (Inl (ActionError UNAUTHORIZED ''You must be signed in to perform this action.''), d))
       \<and> server_addSttSegments uuids now araw context d
           = (case addSttSegments_schema araw of
                None \<Rightarrow> (Inl ActionInputError, d)
              | Some input \<Rightarrow>
                  (Inl (ActionError UNAUTHORIZED ''You must be signed in to perform this action.''), d))
       \<and> server_getSttJobWithSegments graw context d
           = (Inl (ActionError UNAUTHORIZED ''You must be signed in to perform this action.''), d)
       \<and> server_listMySttJobs lraw context d
           = (case listMySttJobs_schema lraw of
                None \<Rightarrow> (Inl ActionInputError, d)
              | Some input \<Rightarrow>
                  (Inl (ActionError UNAUTHORIZED ''You must be signed in to perform this action.''), d))
       \<and> createSttJob ci context uuid now d
           = (Inl (ActionError UNAUTHORIZED ''You must be signed in to perform this action.''), d)
       \<and> updateSttJob ui context d
           = (Inl (ActionError UNAUTHORIZED ''You must be signed in to perform this action.''), d)
       \<and> addSttSegments ai context uuids now d
           = (Inl (ActionError UNAUTHORIZED ''You must be signed in to perform this action.''), d)
       \<and> getSttJobWithSegments gi context d
           = (Inl (ActionError UNAUTHORIZED ''You must be signed in to perform this action.''), d)
       \<and> listMySttJobs li context d
           = (Inl (ActionError UNAUTHORIZED ''You must be signed in to perform this action.''), d)"
proof -
  note r = requireUser_None [OF assms]
  have h: "createSttJob ci context uuid now d
           = (Inl (ActionError UNAUTHORIZED ''You must be signed in to perform this action.''), d)"
    "updateSttJob ui context d
           = (Inl (ActionError UNAUTHORIZED ''You must be signed in to perform this action.''), d)"
    "addSttSegments ai context uuids now d
           = (Inl (ActionError UNAUTHORIZED ''You must be signed in to perform this action.''), d)"
    "getSttJobWithSegments gi context d
           = (Inl (ActionError UNAUTHORIZED ''You must be signed in to perform this action.''), d)"
    "listMySttJobs li context d
           = (Inl (ActionError UNAUTHORIZED ''You must be signed in to perform this action.''), d)"
    for ci ui ai gi li
    using r by (simp_all add: createSttJob_def updateSttJob_def addSttSegments_def
        getSttJobWithSegments_def listMySttJobs_def)
  have a1: "server_createSttJob is_url uuid now craw context d
           = (case createSttJob_schema is_url craw of
                None \<Rightarrow> (Inl ActionInputError, d)
              | Some input \<Rightarrow>
                  (Inl (ActionError UNAUTHORIZED ''You must be signed in to perform this action.''), d))"
    by (simp add: server_createSttJob_def defineAction_def h split: option.splits)
  have a2: "server_updateSttJob uraw context d
           = (case updateSttJob_schema uraw of
                None \<Rightarrow> (Inl ActionInputError, d)
              | Some input \<Rightarrow>
                  (Inl (ActionError UNAUTHORIZED ''You must be signed in to perform this action.''), d))"
    by (simp add: server_updateSttJob_def defineAction_def h split: option.splits)
  have a3: "server_addSttSegments uuids now araw context d
           = (case addSttSegments_schema araw of
                None \<Rightarrow> (Inl ActionInputError, d)
              | Some input \<Rightarrow>
                  (Inl (ActionError UNAUTHORIZED ''You must be signed in to perform this action.''), d))"
    by (simp add: server_addSttSegments_def defineAction_def h split: option.splits)
  have a4: "server_getSttJobWithSegments graw context d
           = (Inl (ActionError UNAUTHORIZED ''You must be signed in to perform this action.''), d)"
    by (simp add: server_getSttJobWithSegments_def defineAction_def h)
  have a5: "server_listMySttJobs lraw context d
           = (case listMySttJobs_schema lraw of
                None \<Rightarrow> (Inl ActionInputError, d)
              | Some input \<Rightarrow>
                  (Inl (ActionError UNAUTHORIZED ''You must be signed in to perform this action.''), d))"
    by (simp add: server_listMySttJobs_def defineAction_def h split: option.splits)
  from a1 a2 a3 a4 a5 h show ?thesis
    by (intro conjI)
qed

theorem C3_unauthorized_after_schema_witness:
  "current_user anonymous = None
   \<and> server_createSttJob sample_is_url ''u0'' 0 create_sample anonymous sample_db
       = (Inl (ActionError UNAUTHORIZED ''You must be signed in to perform this action.''), sample_db)
   \<and> server_updateSttJob (update_only ''job-a'' (Some ''completed'') None) anonymous sample_db
       = (Inl (ActionError UNAUTHORIZED ''You must be signed in to perform this action.''), sample_db)
   \<and> server_addSttSegments sample_uuids 0
         \<lparr>jobId_in = ''job-a'', segments_in = [seg_in (Finite 3) ''again'' None]\<rparr>
         anonymous sample_db
       = (Inl (ActionError UNAUTHORIZED ''You must be signed in to perform this action.''), sample_db)
   \<and> server_getSttJobWithSegments ''job-a'' anonymous sample_db
       = (Inl (ActionError UNAUTHORIZED ''You must be signed in to perform this action.''), sample_db)
   \<and> server_listMySttJobs \<lparr>page_in = None, pageSize_in = Some (Finite 20)\<rparr> anonymous sample_db
       = (Inl (ActionError UNAUTHORIZED ''You must be signed in to perform this action.''), sample_db)
   \<and> current_user no_locals = None
   \<and> server_updateSttJob (update_only ''missing'' None None) no_locals sample_db
       = (Inl (ActionError UNAUTHORIZED ''You must be signed in to perform this action.''), sample_db)
   \<and> server_updateSttJob (update_only ''job-a'' (Some ''done'') None) no_locals sample_db
       = (Inl ActionInputError, sample_db)"
proof -
  have a: "current_user anonymous = None"
    by (simp add: current_user_def anonymous_def)
  have n: "current_user no_locals = None"
    by (simp add: current_user_def no_locals_def)
  have s1: "createSttJob_schema sample_is_url create_sample = Some create_sample"
    by (simp add: createSttJob_schema_def sample_is_url_def create_sample_def)
  have s2: "updateSttJob_schema (update_only ''job-a'' (Some ''completed'') None) \<noteq> None"
    "updateSttJob_schema (update_only ''missing'' None None) \<noteq> None"
    "updateSttJob_schema (update_only ''job-a'' (Some ''done'') None) = None"
    by (simp_all add: updateSttJob_schema_def update_only_def optional_def status_enum_def)
  have s3: "addSttSegments_schema \<lparr>jobId_in = ''job-a'', segments_in = [seg_in (Finite 3) ''again'' None]\<rparr>
              \<noteq> None"
    by (simp add: addSttSegments_schema_def segment_schema_def seg_in_def z_int_def positive_def
        optional_def)
  have s5: "listMySttJobs_schema \<lparr>page_in = None, pageSize_in = Some (Finite 20)\<rparr> \<noteq> None"
    by (simp add: listMySttJobs_schema_def default_value_def z_int_def positive_def z_max_def)
  show ?thesis
    using a n s1 s2 s3 s5
      C3_unauthorized_after_schema [OF a, of sample_is_url "''u0''" 0 create_sample sample_db
        "update_only ''job-a'' (Some ''completed'') None" sample_uuids
        "\<lparr>jobId_in = ''job-a'', segments_in = [seg_in (Finite 3) ''again'' None]\<rparr>"
        "''job-a''" "\<lparr>page_in = None, pageSize_in = Some (Finite 20)\<rparr>"]
      C3_unauthorized_after_schema [OF n, of sample_is_url "''u0''" 0 create_sample sample_db
        "update_only ''missing'' None None" sample_uuids
        "\<lparr>jobId_in = ''job-a'', segments_in = []\<rparr>"
        "''job-a''" "\<lparr>page_in = None, pageSize_in = None\<rparr>"]
      C3_unauthorized_after_schema [OF n, of sample_is_url "''u0''" 0 create_sample sample_db
        "update_only ''job-a'' (Some ''done'') None" sample_uuids
        "\<lparr>jobId_in = ''job-a'', segments_in = []\<rparr>"
        "''job-a''" "\<lparr>page_in = None, pageSize_in = None\<rparr>"]
    by (auto split: option.splits)
qed

section \<open>C4: creating a job\<close>

text \<open>
  C4. For a valid create input (its URL passes the schema) from an authenticated
  user, with a freshly generated identifier, the action appends exactly one row to
  \<open>SttJobs\<close>: its owner is the requesting user, its status is \<open>queued\<close>, its
  result fields and its error message are empty, and the identifier returned is
  the new row's, under which the owner finds it.
\<close>

theorem C4_create_job:
  assumes "is_url (inputAudioUrl_in input)"
    and "current_user context = Some u"
    and "uuid \<notin> set (map job_id (SttJobs d))"
  shows "\<exists>d' row. server_createSttJob is_url uuid now input context d = (Inr uuid, d')
           \<and> SttJobs d' = SttJobs d @ [row]
           \<and> SttSegments d' = SttSegments d
           \<and> select_job uuid (user_id u) d' = Inr (Some row)
           \<and> job_id row = uuid
           \<and> userId row = user_id u
           \<and> status row = Some ''queued''
           \<and> transcriptText row = None
           \<and> durationSeconds row = None
           \<and> wordCount row = None
           \<and> completedAt row = None
           \<and> errorMessage row = None
           \<and> inputAudioUrl row = inputAudioUrl_in input
           \<and> audioFormat row = audioFormat_in input
           \<and> language row = language_in input
           \<and> modelName row = modelName_in input
           \<and> createdAt row = now"
proof -
  let ?row = "\<lparr>job_id = uuid, userId = user_id u,
                   inputAudioUrl = inputAudioUrl_in input,
                   audioFormat = audioFormat_in input,
                   language = language_in input,
                   modelName = modelName_in input,
                   transcriptText = None, durationSeconds = None, wordCount = None,
                   status = Some ''queued'', errorMessage = None,
                   createdAt = now, completedAt = None\<rparr>"
  let ?d' = "d\<lparr>SttJobs := SttJobs d @ [?row]\<rparr>"
  have "server_createSttJob is_url uuid now input context d = createSttJob input context uuid now d"
    using assms(1) by (simp add: server_createSttJob_def defineAction_def createSttJob_schema_def)
  then have run: "server_createSttJob is_url uuid now input context d = (Inr uuid, ?d')"
    using createSttJob_fresh [OF assms(2,3)] by simp
  have "\<forall>x \<in> set (SttJobs d). \<not> (job_id x = uuid \<and> userId x = user_id u)"
    using assms(3) by auto
  then have "filter (\<lambda>j. job_id j = uuid \<and> userId j = user_id u) (SttJobs d @ [?row]) = [?row]"
    by (rule filter_append_fresh) simp
  moreover have "readable_job ?row"
    by (simp add: readable_job_def optional_def)
  ultimately have sel: "select_job uuid (user_id u) ?d' = Inr (Some ?row)"
    by (simp add: select_job_def read_rows_def)
  have jobs: "SttJobs ?d' = SttJobs d @ [?row]" and segs: "SttSegments ?d' = SttSegments d"
    by simp_all
  show ?thesis
    by (rule exI [of _ ?d'], rule exI [of _ ?row], unfold run sel jobs segs) simp
qed

theorem C4_create_job_witness:
  "sample_is_url (inputAudioUrl_in create_sample)
   \<and> current_user (signed_in alice) = Some alice
   \<and> ''job-d'' \<notin> set (map job_id (SttJobs sample_db))
   \<and> (\<exists>d' row. server_createSttJob sample_is_url ''job-d'' 400 create_sample (signed_in alice) sample_db
                     = (Inr ''job-d'', d')
          \<and> SttJobs d' = [job_a, job_b, job_c, row]
          \<and> SttSegments d' = SttSegments sample_db
          \<and> select_job ''job-d'' ''alice'' d' = Inr (Some row)
          \<and> row = \<lparr>job_id = ''job-d'', userId = ''alice'', inputAudioUrl = ''https://x/a.mp3'',
                     audioFormat = None, language = None, modelName = None,
                     transcriptText = None, durationSeconds = None, wordCount = None,
                     status = Some ''queued'', errorMessage = None,
                     createdAt = 400, completedAt = None\<rparr>)"
proof -
  have url: "sample_is_url (inputAudioUrl_in create_sample)"
    by (simp add: sample_is_url_def create_sample_def)
  have fresh: "''job-d'' \<notin> set (map job_id (SttJobs sample_db))"
    by (simp add: sample_db_def job_a_def job_b_def job_c_def)
  obtain d' row where all:
    "server_createSttJob sample_is_url ''job-d'' 400 create_sample (signed_in alice) sample_db
       = (Inr ''job-d'', d')
     \<and> SttJobs d' = SttJobs sample_db @ [row]
     \<and> SttSegments d' = SttSegments sample_db
     \<and> select_job ''job-d'' (user_id alice) d' = Inr (Some row)
     \<and> job_id row = ''job-d''
     \<and> userId row = user_id alice
     \<and> status row = Some ''queued''
     \<and> transcriptText row = None
     \<and> durationSeconds row = None
     \<and> wordCount row = None
     \<and> completedAt row = None
     \<and> errorMessage row = None
     \<and> inputAudioUrl row = inputAudioUrl_in create_sample
     \<and> audioFormat row = audioFormat_in create_sample
     \<and> language row = language_in create_sample
     \<and> modelName row = modelName_in create_sample
     \<and> createdAt row = 400"
    using C4_create_job [of sample_is_url create_sample "signed_in alice" alice "''job-d''" sample_db 400,
        OF url alice_signed_in fresh]
    by (elim exE) (rule that)
  have row: "row = \<lparr>job_id = ''job-d'', userId = ''alice'', inputAudioUrl = ''https://x/a.mp3'',
                     audioFormat = None, language = None, modelName = None,
                     transcriptText = None, durationSeconds = None, wordCount = None,
                     status = Some ''queued'', errorMessage = None,
                     createdAt = 400, completedAt = None\<rparr>"
    using all by (intro SttJob.equality) (simp_all add: create_sample_def alice_def)
  have run: "server_createSttJob sample_is_url ''job-d'' 400 create_sample (signed_in alice) sample_db
               = (Inr ''job-d'', d')"
    and jobs: "SttJobs d' = [job_a, job_b, job_c, row]"
    and segs: "SttSegments d' = SttSegments sample_db"
    and sel: "select_job ''job-d'' ''alice'' d' = Inr (Some row)"
    using all by (simp_all add: sample_db_def alice_def)
  from run jobs segs sel row
  have "\<exists>d' row. server_createSttJob sample_is_url ''job-d'' 400 create_sample (signed_in alice) sample_db
                     = (Inr ''job-d'', d')
          \<and> SttJobs d' = [job_a, job_b, job_c, row]
          \<and> SttSegments d' = SttSegments sample_db
          \<and> select_job ''job-d'' ''alice'' d' = Inr (Some row)
          \<and> row = \<lparr>job_id = ''job-d'', userId = ''alice'', inputAudioUrl = ''https://x/a.mp3'',
                     audioFormat = None, language = None, modelName = None,
                     transcriptText = None, durationSeconds = None, wordCount = None,
                     status = Some ''queued'', errorMessage = None,
                     createdAt = 400, completedAt = None\<rparr>"
    by (intro exI [of _ d'] exI [of _ row] conjI)
  with url alice_signed_in fresh show ?thesis
    by (intro conjI)
qed

section \<open>C5: a job with its segments\<close>

text \<open>
  C5. For every owned job, \<open>getSttJobWithSegments\<close> returns the segments of the
  job, sorted by \<open>orderIndex\<close>. It does not for every owned job: \<open>addSttSegments\<close>
  accepts the order index \<open>2 ^ 53\<close> and stores it, and from then on
  \<open>getSttJobWithSegments\<close> fails for that job, the client throwing \<open>RangeError\<close> on the
  stored integer.
\<close>

theorem C5_counterexample:
  "server_addSttSegments sample_uuids 150
      \<lparr>jobId_in = ''job-a'', segments_in = [seg_in (Finite 9007199254740992) ''late'' None]\<rparr>
      (signed_in alice) sample_db
     = (Inr 1, big_index_db)
   \<and> server_getSttJobWithSegments ''job-a'' (signed_in alice) big_index_db
     = (Inl RangeError, big_index_db)"
proof -
  have a: "server_addSttSegments sample_uuids 150
      \<lparr>jobId_in = ''job-a'', segments_in = [seg_in (Finite 9007199254740992) ''late'' None]\<rparr>
      (signed_in alice) sample_db
     = (Inr 1, big_index_db)"
    by (simp add: server_addSttSegments_def defineAction_def addSttSegments_schema_def
        segment_schema_def parsed_segment_def seg_in_def z_int_def positive_def optional_def
        integer_of_def addSttSegments_def requireUser_def current_user_def signed_in_def
        alice_def select_job_def read_rows_def readable_job_def unsafe_stored_def
        unsafe_integer_def sample_db_def job_a_def job_b_def job_c_def seg_row_def
        segment_values_def enumerate_eq_zip insert_segments_def bindable_segment_def
        stored_segment_def sample_uuids_def big_index_db_def Let_def)
  have g: "server_getSttJobWithSegments ''job-a'' (signed_in alice) big_index_db
     = (Inl RangeError, big_index_db)"
    by (simp add: server_getSttJobWithSegments_def defineAction_def getSttJobWithSegments_def
        requireUser_def current_user_def signed_in_def alice_def select_job_def read_rows_def
        readable_job_def unsafe_stored_def unsafe_integer_def optional_def big_index_db_def
        job_a_def job_b_def job_c_def seg_row_def select_segments_def readable_segment_def
        sort_key_def)
  from a g show ?thesis by (rule conjI)
qed

text \<open>
  C5, as the code has it: for an owned job whose row and whose segments hold no
  integer the client cannot read (none of magnitude \<open>2 ^ 53\<close> or more),
  \<open>getSttJobWithSegments\<close> returns the job and exactly the segments whose \<open>jobId\<close> is
  the job's id (as a multiset), in ascending order of \<open>orderIndex\<close>; storing the same
  segments in another order gives the same segments in the same sequence of order
  indices.
\<close>

theorem C5_segments_sorted:
  assumes "primary_keys_ok d" and "current_user context = Some u"
    and "j \<in> set (SttJobs d)" and "job_id j = i" and "userId j = user_id u"
    and "readable_job j"
    and "\<forall>s \<in> set (SttSegments d). jobId s = i \<longrightarrow> readable_segment s"
  shows "\<exists>r. getSttJobWithSegments i context d = (Inr r, d)
           \<and> job r = j
           \<and> mset (segments r) = filter_mset (\<lambda>s. jobId s = i) (mset (SttSegments d))
           \<and> sorted (map orderIndex (segments r))
           \<and> (\<forall>d2. SttJobs d2 = SttJobs d \<and> mset (SttSegments d2) = mset (SttSegments d)
                 \<longrightarrow> (\<exists>r2. getSttJobWithSegments i context d2 = (Inr r2, d2)
                        \<and> mset (segments r2) = mset (segments r)
                        \<and> map orderIndex (segments r2) = map orderIndex (segments r)))"
proof -
  let ?segs = "\<lambda>d. sort_key orderIndex (filter (\<lambda>s. jobId s = i) (SttSegments d))"
  let ?r = "\<lambda>d. \<lparr>job = j, segments = ?segs d\<rparr>"
  have ok: "list_all readable_segment (filter (\<lambda>s. jobId s = i) (SttSegments d))"
    using assms(7) by (simp add: list_all_iff)
  have run: "getSttJobWithSegments i context d = (Inr (?r d), d)"
    using getSttJobWithSegments_owned [OF assms(1-5)] assms(6) ok by simp
  have all: "mset (segments (?r d)) = filter_mset (\<lambda>s. jobId s = i) (mset (SttSegments d))"
    by simp
  have srt: "sorted (map orderIndex (segments (?r d)))"
    by simp
  have perm: "\<exists>r2. getSttJobWithSegments i context d2 = (Inr r2, d2)
                        \<and> mset (segments r2) = mset (segments (?r d))
                        \<and> map orderIndex (segments r2) = map orderIndex (segments (?r d))"
    if d2: "SttJobs d2 = SttJobs d \<and> mset (SttSegments d2) = mset (SttSegments d)" for d2
  proof -
    have jobs: "SttJobs d2 = SttJobs d" and ms: "mset (SttSegments d2) = mset (SttSegments d)"
      using d2 by simp_all
    have same: "set (SttSegments d2) = set (SttSegments d)"
      using ms by (rule mset_eq_setD)
    have dist: "distinct (map seg_id (SttSegments d2))"
    proof -
      have "mset (map seg_id (SttSegments d2)) = mset (map seg_id (SttSegments d))"
        using ms by simp
      then show ?thesis
        using assms(1) by (metis mset_eq_imp_distinct_iff primary_keys_ok_def)
    qed
    have k2: "primary_keys_ok d2"
      using assms(1) jobs dist by (simp add: primary_keys_ok_def)
    have j2: "j \<in> set (SttJobs d2)"
      using assms(3) jobs by simp
    have ok2: "list_all readable_segment (filter (\<lambda>s. jobId s = i) (SttSegments d2))"
      using assms(7) same by (simp add: list_all_iff)
    have run2: "getSttJobWithSegments i context d2 = (Inr (?r d2), d2)"
      using getSttJobWithSegments_owned [OF k2 assms(2) j2 assms(4,5)] assms(6) ok2 by simp
    have m: "mset (filter (\<lambda>s. jobId s = i) (SttSegments d2))
               = mset (filter (\<lambda>s. jobId s = i) (SttSegments d))"
      using ms by (simp only: mset_filter)
    have ms2: "mset (segments (?r d2)) = mset (segments (?r d))"
      using m by simp
    have keys: "map orderIndex (segments (?r d2)) = map orderIndex (segments (?r d))"
      using sorted_same_keys [OF m, of orderIndex] by simp
    from run2 ms2 keys show ?thesis
      by (intro exI [of _ "?r d2"] conjI)
  qed
  have perm_all: "\<forall>d2. SttJobs d2 = SttJobs d \<and> mset (SttSegments d2) = mset (SttSegments d)
                 \<longrightarrow> (\<exists>r2. getSttJobWithSegments i context d2 = (Inr r2, d2)
                        \<and> mset (segments r2) = mset (segments (?r d))
                        \<and> map orderIndex (segments r2) = map orderIndex (segments (?r d)))"
    using perm by (intro allI impI)
  have jr: "job (?r d) = j"
    by simp
  from run jr all srt perm_all show ?thesis
    by (intro exI [of _ "?r d"] conjI)
qed

theorem C5_segments_sorted_witness:
  "primary_keys_ok sample_db \<and> current_user (signed_in alice) = Some alice
   \<and> job_a \<in> set (SttJobs sample_db) \<and> readable_job job_a
   \<and> list_all readable_segment (SttSegments sample_db)
   \<and> map seg_id (SttSegments sample_db) = [''s2'', ''s3'', ''s1'']
   \<and> (\<exists>r. getSttJobWithSegments ''job-a'' (signed_in alice) sample_db = (Inr r, sample_db)
          \<and> job r = job_a
          \<and> segments r = [seg_row ''s1'' ''job-a'' 1 ''hello'', seg_row ''s2'' ''job-a'' 2 ''world'']
          \<and> sorted (map orderIndex (segments r)))"
proof -
  have i: "job_id job_a = ''job-a''" and o: "userId job_a = user_id alice"
    by (simp_all add: job_a_def alice_def)
  obtain r where all: "getSttJobWithSegments ''job-a'' (signed_in alice) sample_db = (Inr r, sample_db)
           \<and> job r = job_a
           \<and> mset (segments r) = filter_mset (\<lambda>s. jobId s = ''job-a'') (mset (SttSegments sample_db))
           \<and> sorted (map orderIndex (segments r))
           \<and> (\<forall>d2. SttJobs d2 = SttJobs sample_db \<and> mset (SttSegments d2) = mset (SttSegments sample_db)
                 \<longrightarrow> (\<exists>r2. getSttJobWithSegments ''job-a'' (signed_in alice) d2 = (Inr r2, d2)
                        \<and> mset (segments r2) = mset (segments r)
                        \<and> map orderIndex (segments r2) = map orderIndex (segments r)))"
    using C5_segments_sorted [OF sample_keys_ok alice_signed_in job_a_in_sample i o
        job_a_readable sample_segments_readable]
    by (elim exE) (rule that)
  have run: "getSttJobWithSegments ''job-a'' (signed_in alice) sample_db = (Inr r, sample_db)"
    and jr: "job r = job_a" and srt: "sorted (map orderIndex (segments r))"
    using all by simp_all
  have ok: "list_all readable_segment (filter (\<lambda>s. jobId s = ''job-a'') (SttSegments sample_db))"
    using sample_segments_readable by (simp add: list_all_iff)
  have "(Inr r, sample_db)
          = (Inr \<lparr>job = job_a,
                   segments = sort_key orderIndex
                                (filter (\<lambda>s. jobId s = ''job-a'') (SttSegments sample_db))\<rparr>,
             sample_db)"
    using run getSttJobWithSegments_owned [OF sample_keys_ok alice_signed_in job_a_in_sample i o]
      job_a_readable ok by simp
  then have "r = \<lparr>job = job_a,
                   segments = sort_key orderIndex
                                (filter (\<lambda>s. jobId s = ''job-a'') (SttSegments sample_db))\<rparr>"
    by simp
  then have "segments r = sort_key orderIndex (filter (\<lambda>s. jobId s = ''job-a'') (SttSegments sample_db))"
    by simp
  also have "\<dots> = [seg_row ''s1'' ''job-a'' 1 ''hello'', seg_row ''s2'' ''job-a'' 2 ''world'']"
    by (simp add: sample_db_def seg_row_def sort_key_def)
  finally have segs: "segments r = [seg_row ''s1'' ''job-a'' 1 ''hello'', seg_row ''s2'' ''job-a'' 2 ''world'']" .
  have ids: "map seg_id (SttSegments sample_db) = [''s2'', ''s3'', ''s1'']"
    by (simp add: sample_db_def seg_row_def)
  have rd: "list_all readable_segment (SttSegments sample_db)"
    by (simp add: sample_db_def seg_row_def readable_segment_def unsafe_integer_def optional_def)
  from run jr segs srt
  have "\<exists>r. getSttJobWithSegments ''job-a'' (signed_in alice) sample_db = (Inr r, sample_db)
          \<and> job r = job_a
          \<and> segments r = [seg_row ''s1'' ''job-a'' 1 ''hello'', seg_row ''s2'' ''job-a'' 2 ''world'']
          \<and> sorted (map orderIndex (segments r))"
    by (intro exI [of _ r] conjI)
  with sample_keys_ok alice_signed_in job_a_in_sample job_a_readable rd ids show ?thesis
    by (intro conjI)
qed

section \<open>C6: listing the jobs of the user\<close>




section \<open>C7: the schemas reject malformed input\<close>

text \<open>
  C7. An update whose status is outside the four values is rejected by the schema,
  and so is a list of segments that is empty or holds a segment with empty text, an
  order index that is not positive or not an integer (an infinity is neither), or
  a confidence outside \<open>[0, 1]\<close>; the handler does not run and the database is
  unchanged.
\<close>

theorem C7_schema_rejects:
  "(status_in ur = Some s \<and> s \<notin> {''queued'', ''processing'', ''completed'', ''failed''}
      \<longrightarrow> server_updateSttJob ur context d = (Inl ActionInputError, d))
   \<and> (segments_in ar = []
        \<or> (\<exists>g \<in> set (segments_in ar).
              text_in g = []
              \<or> (\<exists>r. orderIndex_in g = Finite r \<and> (r \<le> 0 \<or> r \<notin> \<int>))
              \<or> orderIndex_in g = Infinity \<or> orderIndex_in g = NegInfinity
              \<or> (\<exists>c. confidence_in g = Some c
                    \<and> ((\<exists>r. c = Finite r \<and> (r < 0 \<or> 1 < r)) \<or> c = Infinity \<or> c = NegInfinity)))
      \<longrightarrow> server_addSttSegments uuids now ar context d = (Inl ActionInputError, d))"
proof (intro conjI impI)
  assume "status_in ur = Some s \<and> s \<notin> {''queued'', ''processing'', ''completed'', ''failed''}"
  then have "updateSttJob_schema ur = None"
    using updateSttJob_schema_status by blast
  then show "server_updateSttJob ur context d = (Inl ActionInputError, d)"
    by (simp add: server_updateSttJob_def defineAction_def)
next
  assume a: "segments_in ar = []
        \<or> (\<exists>g \<in> set (segments_in ar).
              text_in g = []
              \<or> (\<exists>r. orderIndex_in g = Finite r \<and> (r \<le> 0 \<or> r \<notin> \<int>))
              \<or> orderIndex_in g = Infinity \<or> orderIndex_in g = NegInfinity
              \<or> (\<exists>c. confidence_in g = Some c
                    \<and> ((\<exists>r. c = Finite r \<and> (r < 0 \<or> 1 < r)) \<or> c = Infinity \<or> c = NegInfinity)))"
  have "segments_in ar = [] \<or> (\<exists>g \<in> set (segments_in ar). \<not> segment_schema g)"
    using a segment_schema_rejects by blast
  then have "addSttSegments_schema ar = None"
    by (rule addSttSegments_schema_rejects)
  then show "server_addSttSegments uuids now ar context d = (Inl ActionInputError, d)"
    by (simp add: server_addSttSegments_def defineAction_def)
qed

theorem C7_schema_rejects_witness:
  "server_updateSttJob (update_only ''job-a'' (Some ''done'') None) (signed_in alice) sample_db
       = (Inl ActionInputError, sample_db)
   \<and> server_addSttSegments sample_uuids 0 \<lparr>jobId_in = ''job-a'', segments_in = []\<rparr>
         (signed_in alice) sample_db
       = (Inl ActionInputError, sample_db)
   \<and> server_addSttSegments sample_uuids 0
         \<lparr>jobId_in = ''job-a'',
           segments_in = [seg_in (Finite 3) ''ok'' None, seg_in (Finite 4) '''' None]\<rparr>
         (signed_in alice) sample_db
       = (Inl ActionInputError, sample_db)
   \<and> server_addSttSegments sample_uuids 0
         \<lparr>jobId_in = ''job-a'', segments_in = [seg_in (Finite 0) ''zero'' None]\<rparr>
         (signed_in alice) sample_db
       = (Inl ActionInputError, sample_db)
   \<and> server_addSttSegments sample_uuids 0
         \<lparr>jobId_in = ''job-a'', segments_in = [seg_in (Finite (3 / 2)) ''half'' None]\<rparr>
         (signed_in alice) sample_db
       = (Inl ActionInputError, sample_db)
   \<and> server_addSttSegments sample_uuids 0
         \<lparr>jobId_in = ''job-a'', segments_in = [seg_in Infinity ''endless'' None]\<rparr>
         (signed_in alice) sample_db
       = (Inl ActionInputError, sample_db)
   \<and> server_addSttSegments sample_uuids 0
         \<lparr>jobId_in = ''job-a'',
           segments_in = [seg_in (Finite 3) ''sure'' (Some (Finite (11 / 10)))]\<rparr>
         (signed_in alice) sample_db
       = (Inl ActionInputError, sample_db)"
proof -
  have half: "(3 / 2 :: rat) \<notin> \<int>"
  proof
    assume "(3 / 2 :: rat) \<in> \<int>"
    then obtain z :: int where "(3 / 2 :: rat) = of_int z" by (auto simp: Ints_def)
    then have "(of_int (2 * z) :: rat) = of_int 3" by simp
    then have "2 * z = 3" by (simp only: of_int_eq_iff)
    then show False by presburger
  qed
  have h5: "\<exists>r. Finite (3 / 2) = Finite r \<and> (r \<le> 0 \<or> r \<notin> \<int>)"
    using half by (intro exI [of _ "3 / 2"]) simp
  have h4: "\<exists>r :: rat. Finite 0 = Finite r \<and> (r \<le> 0 \<or> r \<notin> \<int>)"
    by (intro exI [of _ 0]) simp
  have h7: "\<exists>c. Some (Finite (11 / 10)) = Some c
                    \<and> ((\<exists>r. c = Finite r \<and> (r < 0 \<or> 1 < r)) \<or> c = Infinity \<or> c = NegInfinity)"
  proof -
    have "\<exists>r :: rat. Finite (11 / 10) = Finite r \<and> (r < 0 \<or> 1 < r)"
      by (rule exI [of _ "11 / 10"]) simp
    then show ?thesis
      by (intro exI [of _ "Finite (11 / 10)"] conjI disjI1 refl)
  qed
  let ?u = "update_only ''job-a'' (Some ''done'') None :: number UpdateSttJobInput"
  have st: "status_in ?u = Some ''done'' \<and> ''done'' \<notin> {''queued'', ''processing'', ''completed'', ''failed''}"
    by (simp add: update_only_def)
  note c7 = C7_schema_rejects [of ?u "''done''" "signed_in alice" sample_db _ sample_uuids 0]
  have w1: "server_updateSttJob ?u (signed_in alice) sample_db = (Inl ActionInputError, sample_db)"
    using c7 [of "\<lparr>jobId_in = ''job-a'', segments_in = []\<rparr>"] st by blast
  have w2: "server_addSttSegments sample_uuids 0 \<lparr>jobId_in = ''job-a'', segments_in = []\<rparr>
         (signed_in alice) sample_db = (Inl ActionInputError, sample_db)"
    using c7 [of "\<lparr>jobId_in = ''job-a'', segments_in = []\<rparr>"] by simp
  have w3: "server_addSttSegments sample_uuids 0
         \<lparr>jobId_in = ''job-a'',
           segments_in = [seg_in (Finite 3) ''ok'' None, seg_in (Finite 4) '''' None]\<rparr>
         (signed_in alice) sample_db = (Inl ActionInputError, sample_db)"
    using c7 [of "\<lparr>jobId_in = ''job-a'',
           segments_in = [seg_in (Finite 3) ''ok'' None, seg_in (Finite 4) '''' None]\<rparr>"]
    by (simp add: seg_in_def)
  have w4: "server_addSttSegments sample_uuids 0
         \<lparr>jobId_in = ''job-a'', segments_in = [seg_in (Finite 0) ''zero'' None]\<rparr>
         (signed_in alice) sample_db = (Inl ActionInputError, sample_db)"
    using c7 [of "\<lparr>jobId_in = ''job-a'', segments_in = [seg_in (Finite 0) ''zero'' None]\<rparr>"] h4
    by (simp add: seg_in_def)
  have w5: "server_addSttSegments sample_uuids 0
         \<lparr>jobId_in = ''job-a'', segments_in = [seg_in (Finite (3 / 2)) ''half'' None]\<rparr>
         (signed_in alice) sample_db = (Inl ActionInputError, sample_db)"
    using c7 [of "\<lparr>jobId_in = ''job-a'', segments_in = [seg_in (Finite (3 / 2)) ''half'' None]\<rparr>"] h5
    by (simp add: seg_in_def)
  have w6: "server_addSttSegments sample_uuids 0
         \<lparr>jobId_in = ''job-a'', segments_in = [seg_in Infinity ''endless'' None]\<rparr>
         (signed_in alice) sample_db = (Inl ActionInputError, sample_db)"
    using c7 [of "\<lparr>jobId_in = ''job-a'', segments_in = [seg_in Infinity ''endless'' None]\<rparr>"]
    by (simp add: seg_in_def)
  have w7: "server_addSttSegments sample_uuids 0
         \<lparr>jobId_in = ''job-a'',
           segments_in = [seg_in (Finite 3) ''sure'' (Some (Finite (11 / 10)))]\<rparr>
         (signed_in alice) sample_db = (Inl ActionInputError, sample_db)"
    using c7 [of "\<lparr>jobId_in = ''job-a'',
           segments_in = [seg_in (Finite 3) ''sure'' (Some (Finite (11 / 10)))]\<rparr>"] h7
    by (simp add: seg_in_def)
  from w1 w2 w3 w4 w5 w6 w7 show ?thesis
    by (intro conjI)
qed

section \<open>C8: appending segments\<close>




section \<open>C9: the error message and the status\<close>

text \<open>
  C9. A job has an error message only when its status is \<open>failed\<close>. The handlers do
  not keep this: an update that supplies \<open>errorMessage\<close> and no \<open>status\<close> stores
  the message on a job whose status stays \<open>queued\<close>.
\<close>

theorem C9_counterexample:
  "server_updateSttJob (update_only ''job-1'' None (Some ''boom'')) (signed_in alice)
     (snd (server_createSttJob sample_is_url ''job-1'' 0 create_sample (signed_in alice) empty_db))
   = (Inr ''job-1'',
      \<lparr>SttJobs = [\<lparr>job_id = ''job-1'', userId = ''alice'', inputAudioUrl = ''https://x/a.mp3'',
                    audioFormat = None, language = None, modelName = None,
                    transcriptText = None, durationSeconds = None, wordCount = None,
                    status = Some ''queued'', errorMessage = Some ''boom'',
                    createdAt = 0, completedAt = None\<rparr>],
       SttSegments = []\<rparr>)"
proof -
  have c: "server_createSttJob sample_is_url ''job-1'' 0 create_sample (signed_in alice) empty_db
        = (Inr ''job-1'',
           \<lparr>SttJobs = [\<lparr>job_id = ''job-1'', userId = ''alice'', inputAudioUrl = ''https://x/a.mp3'',
                    audioFormat = None, language = None, modelName = None,
                    transcriptText = None, durationSeconds = None, wordCount = None,
                    status = Some ''queued'', errorMessage = None,
                    createdAt = 0, completedAt = None\<rparr>],
             SttSegments = []\<rparr>)"
    by (simp add: server_createSttJob_def defineAction_def createSttJob_schema_def sample_is_url_def
        create_sample_def createSttJob_def requireUser_def current_user_def signed_in_def alice_def
        insert_job_def empty_db_def Let_def)
  show ?thesis
    unfolding c
    by (simp add: server_updateSttJob_def defineAction_def updateSttJob_schema_def optional_def
        update_only_def updateSttJob_def requireUser_def current_user_def signed_in_def alice_def
        select_job_def read_rows_def readable_job_def update_jobs_def set_fields_def
        fieldsToUpdate_def nullish_def)
qed

text \<open>
  C9, as the handlers have it: \<open>createSttJob\<close> inserts a job with status \<open>queued\<close>
  and no error message; \<open>updateSttJob\<close> changes the error message of a job only
  when its input supplies one, and then, when the client can read the job's row
  and send the arguments, stores the supplied message whatever the status, given
  or current, is.
\<close>

theorem C9_errorMessage_only_by_update:
  assumes "primary_keys_ok d"
  shows "length (SttJobs (snd (updateSttJob input context d))) = length (SttJobs d)
       \<and> (\<forall>n < length (SttJobs d).
             errorMessage (SttJobs (snd (updateSttJob input context d)) ! n)
               = errorMessage (SttJobs d ! n)
           \<or> (errorMessage_in input \<noteq> None
              \<and> errorMessage (SttJobs (snd (updateSttJob input context d)) ! n)
                  = errorMessage_in input))
       \<and> (\<forall>u j m. current_user context = Some u \<and> j \<in> set (SttJobs d)
              \<and> job_id j = id_in input \<and> userId j = user_id u
              \<and> errorMessage_in input = Some m
              \<and> readable_job j \<and> optional bindable (durationSeconds_in input)
            \<longrightarrow> (\<exists>j'. job_row (id_in input) (user_id u) (snd (updateSttJob input context d)) = Some j'
                   \<and> errorMessage j' = Some m
                   \<and> status j' = nullish (status_in input) (status j)))
       \<and> (snd (createSttJob ci context uuid now d) = d
          \<or> (\<exists>row. SttJobs (snd (createSttJob ci context uuid now d)) = SttJobs d @ [row]
                \<and> errorMessage row = None \<and> status row = Some ''queued''))"
proof (intro conjI)
  show "length (SttJobs (snd (updateSttJob input context d))) = length (SttJobs d)"
    using updateSttJob_cases [of input "context" d]
    by (elim disjE exE conjE) (metis snd_conv, simp)
next
  show "\<forall>n < length (SttJobs d).
             errorMessage (SttJobs (snd (updateSttJob input context d)) ! n)
               = errorMessage (SttJobs d ! n)
           \<or> (errorMessage_in input \<noteq> None
              \<and> errorMessage (SttJobs (snd (updateSttJob input context d)) ! n)
                  = errorMessage_in input)"
  proof (intro allI impI)
    fix n assume n: "n < length (SttJobs d)"
    from updateSttJob_cases [of input "context" d]
    show "errorMessage (SttJobs (snd (updateSttJob input context d)) ! n)
               = errorMessage (SttJobs d ! n)
           \<or> (errorMessage_in input \<noteq> None
              \<and> errorMessage (SttJobs (snd (updateSttJob input context d)) ! n)
                  = errorMessage_in input)"
    proof
      assume "updateSttJob input context d = (fst (updateSttJob input context d), d)"
      then have "snd (updateSttJob input context d) = d"
        by (metis snd_conv)
      then show ?thesis by simp
    next
      assume "\<exists>j. j \<in> set (SttJobs d)
          \<and> updateSttJob input context d
              = (Inr (job_id j),
                 d\<lparr>SttJobs := map (\<lambda>r. if job_id r = job_id j
                                        then set_fields (fieldsToUpdate input j) r else r)
                                  (SttJobs d)\<rparr>)"
      then obtain j where j: "j \<in> set (SttJobs d)"
        and run: "updateSttJob input context d
              = (Inr (job_id j),
                 d\<lparr>SttJobs := map (\<lambda>r. if job_id r = job_id j
                                        then set_fields (fieldsToUpdate input j) r else r)
                                  (SttJobs d)\<rparr>)"
        by (elim exE conjE) (rule that)
      show ?thesis
        unfolding run using update_errorMessage [OF assms j n, of input] by simp
    qed
  qed
next
  show "\<forall>u j m. current_user context = Some u \<and> j \<in> set (SttJobs d)
              \<and> job_id j = id_in input \<and> userId j = user_id u
              \<and> errorMessage_in input = Some m
              \<and> readable_job j \<and> optional bindable (durationSeconds_in input)
            \<longrightarrow> (\<exists>j'. job_row (id_in input) (user_id u) (snd (updateSttJob input context d)) = Some j'
                   \<and> errorMessage j' = Some m
                   \<and> status j' = nullish (status_in input) (status j))"
  proof (intro allI impI)
    fix u j m
    assume h: "current_user context = Some u \<and> j \<in> set (SttJobs d)
              \<and> job_id j = id_in input \<and> userId j = user_id u
              \<and> errorMessage_in input = Some m
              \<and> readable_job j \<and> optional bindable (durationSeconds_in input)"
    then have u: "current_user context = Some u" and j: "j \<in> set (SttJobs d)"
      and i: "job_id j = id_in input" and o: "userId j = user_id u"
      and m: "errorMessage_in input = Some m"
      and ok: "readable_job j \<and> optional bindable (durationSeconds_in input)"
      by simp_all
    let ?g = "\<lambda>r. if job_id r = job_id j then set_fields (fieldsToUpdate input j) r else r"
    have row: "job_row (id_in input) (user_id u) d = Some j"
      using job_row_owned [OF assms j o] i by simp
    have d': "snd (updateSttJob input context d) = d\<lparr>SttJobs := map ?g (SttJobs d)\<rparr>"
      using updateSttJob_owned [OF assms u j i o] ok by simp
    have row': "job_row (id_in input) (user_id u) (snd (updateSttJob input context d))
                  = Some (set_fields (fieldsToUpdate input j) j)"
      unfolding d' by (simp add: job_row_updated row)
    have e: "errorMessage (set_fields (fieldsToUpdate input j) j) = Some m"
      using m by (simp add: set_fields_merged nullish_def)
    have s: "status (set_fields (fieldsToUpdate input j) j) = nullish (status_in input) (status j)"
      by (simp add: set_fields_merged)
    from row' e s
    show "\<exists>j'. job_row (id_in input) (user_id u) (snd (updateSttJob input context d)) = Some j'
                   \<and> errorMessage j' = Some m
                   \<and> status j' = nullish (status_in input) (status j)"
      by (intro exI [of _ "set_fields (fieldsToUpdate input j) j"] conjI)
  qed
next
  show "snd (createSttJob ci context uuid now d) = d
          \<or> (\<exists>row. SttJobs (snd (createSttJob ci context uuid now d)) = SttJobs d @ [row]
                \<and> errorMessage row = None \<and> status row = Some ''queued'')"
    by (rule createSttJob_snd_cases)
qed

theorem C9_errorMessage_only_by_update_witness:
  "primary_keys_ok sample_db \<and> current_user (signed_in alice) = Some alice
   \<and> job_a \<in> set (SttJobs sample_db) \<and> status job_a = Some ''processing''
   \<and> errorMessage job_a = None \<and> readable_job job_a
   \<and> (\<exists>j'. job_row ''job-a'' ''alice''
               (snd (updateSttJob (update_only ''job-a'' None (Some ''boom''))
                       (signed_in alice) sample_db)) = Some j'
          \<and> errorMessage j' = Some ''boom''
          \<and> status j' = Some ''processing'')"
proof -
  let ?input = "update_only ''job-a'' None (Some ''boom'') :: int UpdateSttJobInput"
  have h: "current_user (signed_in alice) = Some alice \<and> job_a \<in> set (SttJobs sample_db)
              \<and> job_id job_a = id_in ?input \<and> userId job_a = user_id alice
              \<and> errorMessage_in ?input = Some ''boom''
              \<and> readable_job job_a \<and> optional bindable (durationSeconds_in ?input)"
    using alice_signed_in job_a_in_sample job_a_readable
    by (simp add: job_a_def update_only_def alice_def optional_def)
  have c9: "\<exists>j'. job_row (id_in ?input) (user_id alice)
                          (snd (updateSttJob ?input (signed_in alice) sample_db)) = Some j'
                   \<and> errorMessage j' = Some ''boom''
                   \<and> status j' = nullish (status_in ?input) (status job_a)"
    using C9_errorMessage_only_by_update [OF sample_keys_ok, of ?input "signed_in alice"
        create_sample "''u0''" 0] h
    by (elim conjE allE [of _ alice] allE [of _ job_a] allE [of _ "''boom''"] impE) (intro conjI)
  then obtain j' where sel: "job_row (id_in ?input) (user_id alice)
                          (snd (updateSttJob ?input (signed_in alice) sample_db)) = Some j'"
    and e: "errorMessage j' = Some ''boom''"
    and st: "status j' = nullish (status_in ?input) (status job_a)"
    by (elim exE conjE) (rule that)
  have sel': "job_row ''job-a'' ''alice''
               (snd (updateSttJob ?input (signed_in alice) sample_db)) = Some j'"
    using sel by (simp add: update_only_def alice_def)
  have st': "status j' = Some ''processing''"
    using st by (simp add: update_only_def job_a_def)
  from sel' e st'
  have ex: "\<exists>j'. job_row ''job-a'' ''alice''
               (snd (updateSttJob ?input (signed_in alice) sample_db)) = Some j'
          \<and> errorMessage j' = Some ''boom''
          \<and> status j' = Some ''processing''"
    by (intro exI [of _ j'] conjI)
  have sa: "status job_a = Some ''processing''" and ea: "errorMessage job_a = None"
    by (simp_all add: job_a_def)
  from sample_keys_ok alice_signed_in job_a_in_sample sa ea job_a_readable ex show ?thesis
    by (intro conjI)
qed

section \<open>C10: what an update leaves alone\<close>

text \<open>
  C10. A call of \<open>updateSttJob\<close> for an owned job, which succeeds when the client
  can read the job's row and send the arguments, leaves every segment row as it
  was, keeps the number and order of the job rows, keeps \<open>id\<close>, \<open>userId\<close>,
  \<open>inputAudioUrl\<close>, \<open>audioFormat\<close>, \<open>language\<close>, \<open>modelName\<close> and \<open>createdAt\<close> of every
  job row, and leaves every job row other than the target unchanged.
\<close>

theorem C10_update_frame:
  assumes "primary_keys_ok d" and "current_user context = Some u"
    and "j \<in> set (SttJobs d)" and "job_id j = id_in input" and "userId j = user_id u"
  shows "\<exists>r d'. updateSttJob input context d = (r, d')
           \<and> r = (if readable_job j \<and> optional bindable (durationSeconds_in input)
                  then Inr (id_in input) else Inl RangeError)
           \<and> SttSegments d' = SttSegments d
           \<and> length (SttJobs d') = length (SttJobs d)
           \<and> (\<forall>n < length (SttJobs d).
                 job_id (SttJobs d' ! n) = job_id (SttJobs d ! n)
               \<and> userId (SttJobs d' ! n) = userId (SttJobs d ! n)
               \<and> inputAudioUrl (SttJobs d' ! n) = inputAudioUrl (SttJobs d ! n)
               \<and> audioFormat (SttJobs d' ! n) = audioFormat (SttJobs d ! n)
               \<and> language (SttJobs d' ! n) = language (SttJobs d ! n)
               \<and> modelName (SttJobs d' ! n) = modelName (SttJobs d ! n)
               \<and> createdAt (SttJobs d' ! n) = createdAt (SttJobs d ! n)
               \<and> (SttJobs d ! n \<noteq> j \<longrightarrow> SttJobs d' ! n = SttJobs d ! n))"
proof -
  let ?g = "\<lambda>r. if job_id r = job_id j then set_fields (fieldsToUpdate input j) r else r"
  let ?d' = "d\<lparr>SttJobs := map ?g (SttJobs d)\<rparr>"
  note run = updateSttJob_owned [OF assms]
  show ?thesis
  proof (cases "readable_job j \<and> optional bindable (durationSeconds_in input)")
    case True
    have r: "updateSttJob input context d = (Inr (id_in input), ?d')"
      using run True by simp
    have ok: "(Inr (id_in input) :: failure + string)
                = (if readable_job j \<and> optional bindable (durationSeconds_in input)
                   then Inr (id_in input) else Inl RangeError)"
      using True by simp
    have segs: "SttSegments ?d' = SttSegments d" and len: "length (SttJobs ?d') = length (SttJobs d)"
      by simp_all
    have rows: "job_id (SttJobs ?d' ! n) = job_id (SttJobs d ! n)
               \<and> userId (SttJobs ?d' ! n) = userId (SttJobs d ! n)
               \<and> inputAudioUrl (SttJobs ?d' ! n) = inputAudioUrl (SttJobs d ! n)
               \<and> audioFormat (SttJobs ?d' ! n) = audioFormat (SttJobs d ! n)
               \<and> language (SttJobs ?d' ! n) = language (SttJobs d ! n)
               \<and> modelName (SttJobs ?d' ! n) = modelName (SttJobs d ! n)
               \<and> createdAt (SttJobs ?d' ! n) = createdAt (SttJobs d ! n)
               \<and> (SttJobs d ! n \<noteq> j \<longrightarrow> SttJobs ?d' ! n = SttJobs d ! n)"
      if n: "n < length (SttJobs d)" for n
    proof -
      let ?r = "SttJobs d ! n"
      have r_in: "?r \<in> set (SttJobs d)" using n by simp
      have nth: "SttJobs ?d' ! n = ?g ?r"
        using n by simp
      have other: "?r \<noteq> j \<Longrightarrow> job_id ?r \<noteq> job_id j"
        using same_key_same_row [of job_id "SttJobs d" ?r j] assms(1,3) r_in
        by (auto simp: primary_keys_ok_def)
      show ?thesis
        unfolding nth using other by simp
    qed
    have all_rows: "\<forall>n < length (SttJobs d).
                 job_id (SttJobs ?d' ! n) = job_id (SttJobs d ! n)
               \<and> userId (SttJobs ?d' ! n) = userId (SttJobs d ! n)
               \<and> inputAudioUrl (SttJobs ?d' ! n) = inputAudioUrl (SttJobs d ! n)
               \<and> audioFormat (SttJobs ?d' ! n) = audioFormat (SttJobs d ! n)
               \<and> language (SttJobs ?d' ! n) = language (SttJobs d ! n)
               \<and> modelName (SttJobs ?d' ! n) = modelName (SttJobs d ! n)
               \<and> createdAt (SttJobs ?d' ! n) = createdAt (SttJobs d ! n)
               \<and> (SttJobs d ! n \<noteq> j \<longrightarrow> SttJobs ?d' ! n = SttJobs d ! n)"
      using rows by (intro allI impI)
    from r ok segs len all_rows show ?thesis
      by (intro exI [of _ "Inr (id_in input)"] exI [of _ ?d'] conjI)
  next
    case False
    have r: "updateSttJob input context d = (Inl RangeError, d)"
      using run False by simp
    have ok: "(Inl RangeError :: failure + string)
                = (if readable_job j \<and> optional bindable (durationSeconds_in input)
                   then Inr (id_in input) else Inl RangeError)"
      using False by simp
    have all_rows: "\<forall>n < length (SttJobs d).
                 job_id (SttJobs d ! n) = job_id (SttJobs d ! n)
               \<and> userId (SttJobs d ! n) = userId (SttJobs d ! n)
               \<and> inputAudioUrl (SttJobs d ! n) = inputAudioUrl (SttJobs d ! n)
               \<and> audioFormat (SttJobs d ! n) = audioFormat (SttJobs d ! n)
               \<and> language (SttJobs d ! n) = language (SttJobs d ! n)
               \<and> modelName (SttJobs d ! n) = modelName (SttJobs d ! n)
               \<and> createdAt (SttJobs d ! n) = createdAt (SttJobs d ! n)
               \<and> (SttJobs d ! n \<noteq> j \<longrightarrow> SttJobs d ! n = SttJobs d ! n)"
      by simp
    have segs: "SttSegments d = SttSegments d" and len: "length (SttJobs d) = length (SttJobs d)"
      by simp_all
    from r ok segs len all_rows show ?thesis
      by (intro exI [of _ "Inl RangeError"] exI [of _ d] conjI)
  qed
qed

theorem C10_update_frame_witness:
  "primary_keys_ok sample_db \<and> current_user (signed_in alice) = Some alice
   \<and> job_a \<in> set (SttJobs sample_db) \<and> readable_job job_a
   \<and> (\<exists>d'. updateSttJob (update_only ''job-a'' (Some ''completed'') None)
                  (signed_in alice) sample_db = (Inr ''job-a'', d')
          \<and> SttSegments d' = SttSegments sample_db
          \<and> length (SttJobs d') = 3
          \<and> inputAudioUrl (SttJobs d' ! 0) = ''https://x/a.mp3''
          \<and> createdAt (SttJobs d' ! 0) = 100
          \<and> SttJobs d' ! 1 = job_b
          \<and> SttJobs d' ! 2 = job_c)"
proof -
  let ?input = "update_only ''job-a'' (Some ''completed'') None :: int UpdateSttJobInput"
  have i: "job_id job_a = id_in ?input"
    by (simp add: job_a_def update_only_def)
  have o: "userId job_a = user_id alice"
    by (simp add: job_a_def alice_def)
  have b: "optional bindable (durationSeconds_in ?input)"
    by (simp add: update_only_def optional_def)
  obtain r d' where all: "updateSttJob ?input (signed_in alice) sample_db = (r, d')
      \<and> r = (if readable_job job_a \<and> optional bindable (durationSeconds_in ?input)
                then Inr (id_in ?input) else Inl RangeError)
      \<and> SttSegments d' = SttSegments sample_db
      \<and> length (SttJobs d') = length (SttJobs sample_db)
      \<and> (\<forall>n < length (SttJobs sample_db).
                 job_id (SttJobs d' ! n) = job_id (SttJobs sample_db ! n)
               \<and> userId (SttJobs d' ! n) = userId (SttJobs sample_db ! n)
               \<and> inputAudioUrl (SttJobs d' ! n) = inputAudioUrl (SttJobs sample_db ! n)
               \<and> audioFormat (SttJobs d' ! n) = audioFormat (SttJobs sample_db ! n)
               \<and> language (SttJobs d' ! n) = language (SttJobs sample_db ! n)
               \<and> modelName (SttJobs d' ! n) = modelName (SttJobs sample_db ! n)
               \<and> createdAt (SttJobs d' ! n) = createdAt (SttJobs sample_db ! n)
               \<and> (SttJobs sample_db ! n \<noteq> job_a \<longrightarrow> SttJobs d' ! n = SttJobs sample_db ! n))"
    using C10_update_frame [OF sample_keys_ok alice_signed_in job_a_in_sample i o]
    by (elim exE) (rule that)
  have r: "r = Inr ''job-a''"
    using all job_a_readable b by (simp add: update_only_def)
  have run: "updateSttJob ?input (signed_in alice) sample_db = (Inr ''job-a'', d')"
    using all r by simp
  have s: "SttSegments d' = SttSegments sample_db"
      and l: "length (SttJobs d') = length (SttJobs sample_db)"
      and rows: "\<forall>n < length (SttJobs sample_db).
                 job_id (SttJobs d' ! n) = job_id (SttJobs sample_db ! n)
               \<and> userId (SttJobs d' ! n) = userId (SttJobs sample_db ! n)
               \<and> inputAudioUrl (SttJobs d' ! n) = inputAudioUrl (SttJobs sample_db ! n)
               \<and> audioFormat (SttJobs d' ! n) = audioFormat (SttJobs sample_db ! n)
               \<and> language (SttJobs d' ! n) = language (SttJobs sample_db ! n)
               \<and> modelName (SttJobs d' ! n) = modelName (SttJobs sample_db ! n)
               \<and> createdAt (SttJobs d' ! n) = createdAt (SttJobs sample_db ! n)
               \<and> (SttJobs sample_db ! n \<noteq> job_a \<longrightarrow> SttJobs d' ! n = SttJobs sample_db ! n)"
    using all by simp_all
  have len: "length (SttJobs sample_db) = 3"
    by (simp add: sample_db_def)
  have n0: "SttJobs sample_db ! 0 = job_a" and n1: "SttJobs sample_db ! 1 = job_b"
    and n2: "SttJobs sample_db ! 2 = job_c"
    by (simp_all add: sample_db_def)
  have ne: "job_b \<noteq> job_a" "job_c \<noteq> job_a"
    by (simp_all add: job_a_def job_b_def job_c_def)
  have l3: "length (SttJobs d') = 3"
    using l len by simp
  have r0: "inputAudioUrl (SttJobs d' ! 0) = ''https://x/a.mp3''" "createdAt (SttJobs d' ! 0) = 100"
    using rows [rule_format, of 0] len n0 by (simp_all add: job_a_def)
  have r1: "SttJobs d' ! 1 = job_b"
    using rows [rule_format, of 1] len n1 ne by simp
  have r2: "SttJobs d' ! 2 = job_c"
    using rows [rule_format, of 2] len n2 ne by simp
  from run s l3 r0 r1 r2
  have "\<exists>d'. updateSttJob (update_only ''job-a'' (Some ''completed'') None)
                  (signed_in alice) sample_db = (Inr ''job-a'', d')
          \<and> SttSegments d' = SttSegments sample_db
          \<and> length (SttJobs d') = 3
          \<and> inputAudioUrl (SttJobs d' ! 0) = ''https://x/a.mp3''
          \<and> createdAt (SttJobs d' ! 0) = 100
          \<and> SttJobs d' ! 1 = job_b
          \<and> SttJobs d' ! 2 = job_c"
    by (intro exI [of _ d'] conjI)
  then show ?thesis
    using sample_keys_ok alice_signed_in job_a_in_sample job_a_readable by (intro conjI)
qed

end
